theory Spec2Isabelle
  imports Complex_Main "HOL-Library.Word"
begin

unbundle bit_operations_syntax

section \<open>Platform types and constants\<close>

text \<open>
  The provider is written against the Windows SDK. The model fixes the 64-bit build:
  \<open>size_t\<close>, \<open>HANDLE\<close> and \<open>LARGE_INTEGER\<close> are 64 bits wide, \<open>DWORD\<close>,
  \<open>HRESULT\<close> and \<open>NTSTATUS\<close> 32 bits, \<open>WCHAR\<close> 16 bits and \<open>BYTE\<close> 8 bits.
  A \<open>std::wstring\<close> is the list of its code units, a \<open>std::vector<BYTE>\<close> the list of
  its bytes, a \<open>double\<close> argument a real number.
\<close>

type_synonym wchar = "16 word"
type_synonym wstring = "wchar list"
type_synonym byte = "8 word"
type_synonym dword = "32 word"
type_synonym hresult = "32 word"
type_synonym ntstatus = "32 word"
type_synonym size_t = "64 word"
type_synonym large_integer = "64 word"
type_synonym handle = "64 word"
type_synonym cf_connection_key = "64 word"
type_synonym cf_in_sync_state = dword
type_synonym cf_pin_state = dword

text \<open>
  The values and macros of \<open>winerror.h\<close>, \<open>ntstatus.h\<close> and \<open>handleapi.h\<close> that the
  source uses, as the Windows SDK defines them; these headers are not part of the
  repository. An \<open>HRESULT\<close> is a failure exactly when it is negative as a signed
  32-bit value; \<open>HRESULT_FROM_WIN32\<close> keeps a code that is zero or negative and
  otherwise puts its low 16 bits under the failure bit and the facility \<open>WIN32\<close>.
\<close>

definition S_OK :: hresult where
  "S_OK = 0"

definition E_OUTOFMEMORY :: hresult where
  "E_OUTOFMEMORY = 0x8007000E"

definition STATUS_SUCCESS :: ntstatus where
  "STATUS_SUCCESS = 0"

definition ERROR_ALREADY_EXISTS :: dword where
  "ERROR_ALREADY_EXISTS = 183"

definition INVALID_HANDLE_VALUE :: handle where
  "INVALID_HANDLE_VALUE = - 1"

definition FAILED :: "hresult \<Rightarrow> bool" where
  "FAILED hr = (sint hr < 0)"

definition HRESULT_FROM_WIN32 :: "dword \<Rightarrow> hresult" where
  "HRESULT_FROM_WIN32 x = (if sint x \<le> 0 then x else (x AND 0xFFFF) OR 0x80070000)"

section \<open>Descriptors handed to the host\<close>

record file_basic_info =
  CreationTime :: large_integer
  LastAccessTime :: large_integer
  LastWriteTime :: large_integer
  ChangeTime :: large_integer
  FileAttributes :: dword

text \<open>
  A field that holds the address of a local variable of the helper that fills the
  descriptor. The helper has returned when the host reads the descriptor, so the storage
  is dead and what the host finds there is undefined: the model records only that the
  pointer is null or refers to a dead local, never a value behind it.
\<close>

datatype local_address = NullAddress | DeadLocal

text \<open>
  \<open>CF_SYNC_REGISTRATION\<close> as \<open>CreateSyncRegistration\<close> leaves it. The provider name
  points into the caller's string, which is alive during the registration.
  \<open>SyncPolicies\<close> is the address of the helper's local \<open>policies\<close> (which it filled
  with full hydration, always-full population, track-all in-sync, no hard links and
  default placeholder management).
\<close>

record cf_sync_registration =
  ProviderName :: wstring
  ProviderVersion :: string
  SyncPolicies :: local_address

text \<open>
  \<open>CF_PLACEHOLDER_CREATE_INFO\<close>. The name and the identity are heap blocks, alive until
  they are freed: these fields hold the pointed-to value, \<open>None\<close> is the null pointer
  that \<open>ZeroMemory\<close> leaves. \<open>FsMetadata\<close> is the address of the local \<open>fsMetadata\<close> of
  \<open>CreatePlaceholderInfo\<close> (which it filled with the file size and the basic info).
  The release of the two heap blocks is not modelled.
\<close>

record cf_placeholder_create_info =
  RelativeFileName :: "wstring option"
  FileIdentity :: "byte list option"
  FileIdentityLength :: dword
  FsMetadata :: local_address

datatype cf_operation_type = CF_OPERATION_TYPE_TRANSFER_DATA | CF_OPERATION_TYPE_ACK_DATA

text \<open>
  One \<open>CfExecute\<close> transfer request: the fields of \<open>CF_OPERATION_INFO\<close> and of
  \<open>CF_OPERATION_PARAMETERS.TransferData\<close> that the source sets. \<open>Buffer\<close> is the
  content of the vector the pointer refers to; \<open>Length\<close> is the \<open>DWORD\<close> the source
  casts the vector's size to.
\<close>

record cf_operation =
  OpType :: cf_operation_type
  ConnectionKey :: cf_connection_key
  TransferKey :: large_integer
  CompletionStatus :: ntstatus
  Buffer :: "byte list"
  Length :: dword
  Offset :: large_integer

section \<open>The host and what the provider does to it\<close>

text \<open>
  The host is everything outside the repository: the Cloud Files API, the file system,
  the process heap and the standard library's string hash. A \<open>host\<close> gives the two
  sentinel constants of \<open>cfapi.h\<close> and the answer of every call; the theorems hold for
  every host. \<open>ret_HeapAlloc h n size\<close> tells whether the \<open>n\<close>-th allocation of an
  operation (counted from 0) of \<open>size\<close> bytes yields a block. \<open>ret_GetLastError\<close> is
  the thread's last-error code after the Win32 call that failed.
\<close>

record host =
  CF_CONNECTION_KEY_INVALID :: cf_connection_key
  CF_TRANSFER_KEY_INVALID :: large_integer
  ret_GetLastError :: dword
  ret_CreateDirectoryW :: "wstring \<Rightarrow> bool"
  ret_CfRegisterSyncRoot :: "wstring \<Rightarrow> cf_sync_registration \<Rightarrow> hresult"
  ret_CfConnectSyncRoot :: "wstring \<Rightarrow> hresult \<times> cf_connection_key"
  ret_CfUnregisterSyncRoot :: "wstring \<Rightarrow> hresult"
  ret_CfCreatePlaceholders :: "wstring \<Rightarrow> cf_placeholder_create_info \<Rightarrow> hresult"
  ret_CreateFileW :: "wstring \<Rightarrow> handle"
  ret_CfExecute :: "cf_operation \<Rightarrow> hresult"
  ret_CfSetInSyncState :: "handle \<Rightarrow> cf_in_sync_state \<Rightarrow> hresult"
  ret_CfSetPinState :: "handle \<Rightarrow> cf_pin_state \<Rightarrow> hresult"
  ret_HeapAlloc :: "nat \<Rightarrow> nat \<Rightarrow> bool"
  std_hash :: "wstring \<Rightarrow> size_t"

text \<open>
  Every call that leaves the provider is recorded, in order: host calls, invocations of
  the application's callbacks, and the lines written to \<open>std::wcout\<close> (the literal text
  and the value streamed after it). \<open>Hex\<close> is a status streamed right after
  \<open>std::hex\<close>. \<open>Num\<close> is an error code streamed with no manipulator: \<open>std::hex\<close> is
  sticky and the stream is shared by the whole process, so the code appears in decimal
  until some earlier line has switched the stream, in hexadecimal from then on. The
  model records the number and leaves its digits open.
\<close>

datatype wcout_arg = NoArg | WStr wstring | Num dword | Hex hresult

datatype event =
    Wcout string wcout_arg
  | CreateDirectoryW wstring
  | CfRegisterSyncRoot wstring cf_sync_registration
  | CfConnectSyncRoot wstring
  | CfUnregisterSyncRoot wstring
  | CfDisconnectSyncRoot cf_connection_key
  | CfCreatePlaceholders wstring cf_placeholder_create_info
  | CreateFileW wstring
  | CloseHandle handle
  | CfExecute cf_operation
  | CfSetInSyncState handle cf_in_sync_state
  | CfSetPinState handle cf_pin_state
  | FetchDataCallback wstring
  | ProgressCallback real

section \<open>The provider\<close>

text \<open>
  What a C++ callable can throw. The application's fetch source is a
  \<open>std::function\<close>: calling an empty one throws \<open>std::bad_function_call\<close>, a
  non-empty one returns its bytes or throws an exception of its own.
\<close>

datatype cpp_exception = bad_function_call | app_exception nat

text \<open>
  The only closure the source pushes on the work queue is the lambda of \<open>OnFetchData\<close>;
  a work item is what that lambda captures by value.
\<close>

record work_item =
  work_relativePath :: wstring
  work_transferKey :: large_integer

text \<open>
  The worker thread of \<open>Initialize\<close>, as the place its control has reached:
  before the thread exists; at the test of the outer \<open>while\<close>; at the condition
  variable's \<open>wait\<close>; inside \<open>work()\<close> with the popped item, the lock released; at
  \<open>lock.lock()\<close> after the item; returned from the thread function; or left by an
  exception that no handler caught (\<open>std::terminate\<close>).
\<close>

datatype worker =
    NotStarted
  | AtOuterCheck
  | AtWait
  | Running work_item
  | AtRelock
  | Returned
  | Terminated cpp_exception

text \<open>
  The members of the class. \<open>m_queueMutex\<close> and \<open>m_queueCondition\<close> have no field of
  their own: they decide which stretches of code are single steps of the interleaving
  further down. \<open>m_notifyCallback\<close> and the notification handlers that forward to it
  are left out; they touch none of the state below.
\<close>

record CloudFilesProvider =
  m_initialized :: bool
  m_syncRootPath :: wstring
  m_connectionKey :: cf_connection_key
  m_workerThread :: worker
  m_workQueue :: "work_item list"
  m_shouldStop :: bool
  m_fetchDataCallback :: "(wstring \<Rightarrow> cpp_exception + byte list) option"

text \<open>The member initialisers of the class declaration.\<close>

definition new_CloudFilesProvider :: "host \<Rightarrow> CloudFilesProvider" where
  "new_CloudFilesProvider h =
     \<lparr>m_initialized = False, m_syncRootPath = [],
      m_connectionKey = CF_CONNECTION_KEY_INVALID h, m_workerThread = NotStarted,
      m_workQueue = [], m_shouldStop = False, m_fetchDataCallback = None\<rparr>"

subsection \<open>Connection lifecycle\<close>

text \<open>
  The disconnect step, written out identically in \<open>Shutdown\<close> and in
  \<open>UnregisterSyncRoot\<close>: guarded by the comparison with the sentinel, it calls the host
  and stores the sentinel.
\<close>

definition disconnect :: "host \<Rightarrow> CloudFilesProvider \<Rightarrow> CloudFilesProvider \<times> event list" where
  "disconnect h p =
     (if m_connectionKey p \<noteq> CF_CONNECTION_KEY_INVALID h
      then (p\<lparr>m_connectionKey := CF_CONNECTION_KEY_INVALID h\<rparr>,
            [CfDisconnectSyncRoot (m_connectionKey p)])
      else (p, []))"

definition UnregisterSyncRoot ::
  "host \<Rightarrow> wstring \<Rightarrow> CloudFilesProvider \<Rightarrow> hresult \<times> CloudFilesProvider \<times> event list" where
  "UnregisterSyncRoot h syncRootPath p =
     (let (p1, ev1) = disconnect h p;
          hr = ret_CfUnregisterSyncRoot h syncRootPath
      in (hr, p1,
          [Wcout ''Unregistering sync root: '' (WStr syncRootPath)] @ ev1 @
          [CfUnregisterSyncRoot syncRootPath] @
          (if FAILED hr then [Wcout ''Failed to unregister sync root: 0x'' (Hex hr)] else [])))"

definition CreateSyncRegistration :: "wstring \<Rightarrow> hresult \<times> cf_sync_registration" where
  "CreateSyncRegistration displayName =
     (S_OK,
      \<lparr>ProviderName = displayName, ProviderVersion = ''1.0.0'', SyncPolicies = DeadLocal\<rparr>)"

text \<open>
  \<open>RegisterSyncRoot\<close>: the path is stored first; then the directory, the registration
  and the connection, each failure returning at once. The connection key is an output
  parameter of \<open>CfConnectSyncRoot\<close>: the provider holds whatever the host left in it.
\<close>

definition RegisterSyncRoot ::
  "host \<Rightarrow> wstring \<Rightarrow> wstring \<Rightarrow> CloudFilesProvider \<Rightarrow> hresult \<times> CloudFilesProvider \<times> event list" where
  "RegisterSyncRoot h syncRootPath displayName p =
     (let p1 = p\<lparr>m_syncRootPath := syncRootPath\<rparr>;
          ev0 = [Wcout ''Registering sync root: '' (WStr syncRootPath),
                 CreateDirectoryW syncRootPath]
      in if \<not> ret_CreateDirectoryW h syncRootPath \<and> ret_GetLastError h \<noteq> ERROR_ALREADY_EXISTS
         then (HRESULT_FROM_WIN32 (ret_GetLastError h), p1,
               ev0 @ [Wcout ''Failed to create sync root directory: '' (Num (ret_GetLastError h))])
         else
           let (hr0, registration) = CreateSyncRegistration displayName
           in if FAILED hr0 then (hr0, p1, ev0)
              else
                let hr1 = ret_CfRegisterSyncRoot h syncRootPath registration;
                    ev1 = ev0 @ [CfRegisterSyncRoot syncRootPath registration]
                in if FAILED hr1
                   then (hr1, p1, ev1 @ [Wcout ''Failed to register sync root: 0x'' (Hex hr1)])
                   else
                     let (hr2, key) = ret_CfConnectSyncRoot h syncRootPath;
                         p2 = p1\<lparr>m_connectionKey := key\<rparr>;
                         ev2 = ev1 @ [CfConnectSyncRoot syncRootPath]
                     in if FAILED hr2
                        then (hr2, p2,
                              ev2 @ [Wcout ''Failed to connect sync root: 0x'' (Hex hr2),
                                     CfUnregisterSyncRoot syncRootPath])
                        else (S_OK, p2,
                              ev2 @ [Wcout ''Sync root registered successfully'' NoArg]))"

subsection \<open>Placeholders and file operations\<close>

definition GetFullPath :: "CloudFilesProvider \<Rightarrow> wstring \<Rightarrow> wstring" where
  "GetFullPath p relativePath = m_syncRootPath p @ [0x5C] @ relativePath"

definition GetFileHandle :: "host \<Rightarrow> CloudFilesProvider \<Rightarrow> wstring \<Rightarrow> handle \<times> event list" where
  "GetFileHandle h p relativePath =
     (ret_CreateFileW h (GetFullPath p relativePath), [CreateFileW (GetFullPath p relativePath)])"

text \<open>\<open>memcpy\<close> of a \<open>size_t\<close> on a little-endian machine: its eight bytes, lowest first.\<close>

definition size_t_bytes :: "size_t \<Rightarrow> byte list" where
  "size_t_bytes v =
     [ucast v, ucast (drop_bit 8 v), ucast (drop_bit 16 v), ucast (drop_bit 24 v),
      ucast (drop_bit 32 v), ucast (drop_bit 40 v), ucast (drop_bit 48 v), ucast (drop_bit 56 v)]"

definition zero_placeholder_info :: cf_placeholder_create_info where
  "zero_placeholder_info =
     \<lparr>RelativeFileName = None, FileIdentity = None, FileIdentityLength = 0,
      FsMetadata = NullAddress\<rparr>"

text \<open>
  \<open>CreatePlaceholderInfo\<close>: two heap blocks, the first of
  \<open>(length + 1) * sizeof(WCHAR)\<close> bytes for the name, the second of \<open>sizeof(size_t)\<close>
  bytes for the identity. \<open>wcscpy_s\<close> copies the name up to its first null code unit;
  the identity is the hash of the whole path. The file size and the basic info go into
  the local \<open>fsMetadata\<close> only, which is dead on return.
\<close>

definition CreatePlaceholderInfo ::
  "host \<Rightarrow> wstring \<Rightarrow> file_basic_info \<Rightarrow> large_integer \<Rightarrow> hresult \<times> cf_placeholder_create_info" where
  "CreatePlaceholderInfo h relativePath basicInfo fileSize =
     (if \<not> ret_HeapAlloc h 0 ((length relativePath + 1) * 2)
      then (E_OUTOFMEMORY, zero_placeholder_info)
      else
        let hashValue = std_hash h relativePath
        in if \<not> ret_HeapAlloc h 1 8
           then (E_OUTOFMEMORY, zero_placeholder_info)
           else (S_OK,
                 \<lparr>RelativeFileName = Some (takeWhile (\<lambda>c. c \<noteq> 0) relativePath),
                  FileIdentity = Some (size_t_bytes hashValue),
                  FileIdentityLength = 8,
                  FsMetadata = DeadLocal\<rparr>))"

definition CreatePlaceholder ::
  "host \<Rightarrow> CloudFilesProvider \<Rightarrow> wstring \<Rightarrow> file_basic_info \<Rightarrow> large_integer \<Rightarrow> hresult \<times> event list" where
  "CreatePlaceholder h p relativePath basicInfo fileSize =
     (let ev0 = [Wcout ''Creating placeholder: '' (WStr relativePath)];
          (hr0, placeholderInfo) = CreatePlaceholderInfo h relativePath basicInfo fileSize
      in if FAILED hr0 then (hr0, ev0)
         else
           let hr = ret_CfCreatePlaceholders h (m_syncRootPath p) placeholderInfo
           in (hr, ev0 @ [CfCreatePlaceholders (m_syncRootPath p) placeholderInfo] @
                   (if FAILED hr then [Wcout ''Failed to create placeholder: 0x'' (Hex hr)] else [])))"

text \<open>
  \<open>HydrateFile\<close>. The progress callback is a \<open>std::function<void(double)>\<close>: \<open>None\<close> is
  the empty one, which the source tests for; a supplied one is taken to return.
\<close>

definition HydrateFile ::
  "host \<Rightarrow> CloudFilesProvider \<Rightarrow> wstring \<Rightarrow> byte list \<Rightarrow> (real \<Rightarrow> unit) option \<Rightarrow> hresult \<times> event list" where
  "HydrateFile h p relativePath data progressCallback =
     (let ev0 = [Wcout ''Hydrating file: '' (WStr relativePath)];
          (fileHandle, ev1) = GetFileHandle h p relativePath
      in if fileHandle = INVALID_HANDLE_VALUE
         then (HRESULT_FROM_WIN32 (ret_GetLastError h),
               ev0 @ ev1 @ [Wcout ''Failed to get file handle: '' (Num (ret_GetLastError h))])
         else
           let op = \<lparr>OpType = CF_OPERATION_TYPE_TRANSFER_DATA,
                     ConnectionKey = m_connectionKey p,
                     TransferKey = CF_TRANSFER_KEY_INVALID h,
                     CompletionStatus = STATUS_SUCCESS,
                     Buffer = data,
                     Length = of_nat (length data),
                     Offset = 0\<rparr>;
               hr = ret_CfExecute h op
           in (hr,
               ev0 @ ev1 @ [CfExecute op] @
               (if FAILED hr then [Wcout ''Failed to transfer data: 0x'' (Hex hr)] else []) @
               [CloseHandle fileHandle] @
               (case progressCallback of None \<Rightarrow> [] | Some cb \<Rightarrow> [ProgressCallback 1])))"

definition SetInSyncState ::
  "host \<Rightarrow> CloudFilesProvider \<Rightarrow> wstring \<Rightarrow> cf_in_sync_state \<Rightarrow> hresult \<times> event list" where
  "SetInSyncState h p relativePath state =
     (let (fileHandle, ev1) = GetFileHandle h p relativePath
      in if fileHandle = INVALID_HANDLE_VALUE
         then (HRESULT_FROM_WIN32 (ret_GetLastError h), ev1)
         else (ret_CfSetInSyncState h fileHandle state,
               ev1 @ [CfSetInSyncState fileHandle state, CloseHandle fileHandle]))"

definition SetPinState ::
  "host \<Rightarrow> CloudFilesProvider \<Rightarrow> wstring \<Rightarrow> cf_pin_state \<Rightarrow> hresult \<times> event list" where
  "SetPinState h p relativePath pinState =
     (let (fileHandle, ev1) = GetFileHandle h p relativePath
      in if fileHandle = INVALID_HANDLE_VALUE
         then (HRESULT_FROM_WIN32 (ret_GetLastError h), ev1)
         else (ret_CfSetPinState h fileHandle pinState,
               ev1 @ [CfSetPinState fileHandle pinState, CloseHandle fileHandle]))"

subsection \<open>The fetch callback and its work item\<close>

definition SetFetchDataCallback ::
  "(wstring \<Rightarrow> cpp_exception + byte list) option \<Rightarrow> CloudFilesProvider \<Rightarrow> CloudFilesProvider" where
  "SetFetchDataCallback callback p = p\<lparr>m_fetchDataCallback := callback\<rparr>"

text \<open>
  Modelled from the spec: the event record a handler receives holds "normalized
  relative path, a correlation key, and event-specific parameters"; its declaration
  (\<open>CF_CALLBACK_INFO\<close> and \<open>CF_CALLBACK_PARAMETERS\<close> of \<open>cfapi.h\<close>) is not in the
  repository. \<open>NormalizedPath\<close> and \<open>FetchData_RequiredFileOffset\<close> are the two fields
  \<open>OnFetchData\<close> reads; \<open>CorrelationKey\<close> is the event's correlation key, which
  \<open>OnFetchData\<close> never reads.
\<close>

record cf_callback_info =
  NormalizedPath :: wstring
  CorrelationKey :: large_integer

record cf_callback_parameters =
  FetchData_RequiredFileOffset :: large_integer

text \<open>
  \<open>OnFetchData\<close>: under the queue lock, one push of the lambda that captures the path
  and, as its \<open>transferKey\<close>, the event's \<open>FetchData.RequiredFileOffset\<close> (the offset
  in the file at which the host wants data); nothing when the fetch source is empty. \<open>notify_one\<close> has no effect of its own in the model: the
  waiting worker re-evaluates its predicate at its next step.
\<close>

definition OnFetchData ::
  "cf_callback_info \<Rightarrow> cf_callback_parameters \<Rightarrow> CloudFilesProvider \<Rightarrow> CloudFilesProvider \<times> event list" where
  "OnFetchData CallbackInfo CallbackParameters provider =
     (let relPath = NormalizedPath CallbackInfo;
          ev0 = [Wcout ''Fetch data requested for: '' (WStr relPath)]
      in if m_fetchDataCallback provider \<noteq> None
         then (provider\<lparr>m_workQueue := m_workQueue provider @
                 [\<lparr>work_relativePath = relPath,
                   work_transferKey = FetchData_RequiredFileOffset CallbackParameters\<rparr>]\<rparr>, ev0)
         else (provider, ev0))"

text \<open>
  The body of the queued lambda, run against the provider as it is when the worker
  calls it (the lambda holds the provider by pointer): the events it causes, and the
  exception that leaves it, if any.
\<close>

definition run_work :: "host \<Rightarrow> CloudFilesProvider \<Rightarrow> work_item \<Rightarrow> event list \<times> cpp_exception option" where
  "run_work h provider w =
     (case m_fetchDataCallback provider of
        None \<Rightarrow> ([], Some bad_function_call)
      | Some f \<Rightarrow>
          (case f (work_relativePath w) of
             Inl e \<Rightarrow> ([FetchDataCallback (work_relativePath w)], Some e)
           | Inr data \<Rightarrow>
               let op = \<lparr>OpType = CF_OPERATION_TYPE_TRANSFER_DATA,
                         ConnectionKey = m_connectionKey provider,
                         TransferKey = work_transferKey w,
                         CompletionStatus = STATUS_SUCCESS,
                         Buffer = data,
                         Length = of_nat (length data),
                         Offset = 0\<rparr>;
                   hr = ret_CfExecute h op
               in ([FetchDataCallback (work_relativePath w), CfExecute op] @
                   (if FAILED hr
                    then [Wcout ''Failed to transfer data in callback: 0x'' (Hex hr)] else []),
                   None)))"

subsection \<open>The worker loop\<close>

text \<open>
  The test of the inner \<open>while\<close>, made with the queue lock held: pop the head, release
  the lock and enter \<open>work()\<close>; or leave the inner loop, which releases the lock at the
  end of the outer loop's body and leads back to the outer test.
\<close>

definition inner_check :: "CloudFilesProvider \<Rightarrow> CloudFilesProvider" where
  "inner_check p =
     (case m_workQueue p of
        work # rest \<Rightarrow>
          if \<not> m_shouldStop p
          then p\<lparr>m_workQueue := rest, m_workerThread := Running work\<rparr>
          else p\<lparr>m_workerThread := AtOuterCheck\<rparr>
      | [] \<Rightarrow> p\<lparr>m_workerThread := AtOuterCheck\<rparr>)"

text \<open>
  One step of the worker thread. Each step is one stretch of the thread function that
  other threads cannot interleave with: a stretch with the queue lock held, the read of
  the stop flag in the outer test, or one call of \<open>work()\<close>. Producers and \<open>Shutdown\<close>
  hold the lock only inside their own steps, so the worker never waits for the lock
  itself. At \<open>wait\<close> the step is taken only when the predicate holds (queue not empty or
  stop requested); the thread then still holds the lock and goes on to the inner test.
  While the predicate is false the thread sleeps and the step changes nothing. An
  exception leaving \<open>work()\<close> meets no handler in the thread function. The call of
  \<open>work()\<close> reads the fetch source and the connection key and leaves the queue and the
  stop flag alone, while the steps of the other threads further down change, as long as
  the worker runs, only the queue and the stop flag: taking the call as one step
  loses no interleaving.
\<close>

definition worker_step :: "host \<Rightarrow> CloudFilesProvider \<Rightarrow> CloudFilesProvider \<times> event list" where
  "worker_step h p =
     (case m_workerThread p of
        NotStarted \<Rightarrow> (p, [])
      | AtOuterCheck \<Rightarrow>
          if \<not> m_shouldStop p then (p\<lparr>m_workerThread := AtWait\<rparr>, [])
          else (p\<lparr>m_workerThread := Returned\<rparr>, [])
      | AtWait \<Rightarrow>
          if m_workQueue p \<noteq> [] \<or> m_shouldStop p then (inner_check p, []) else (p, [])
      | Running work \<Rightarrow>
          (case run_work h p work of
             (ev, None) \<Rightarrow> (p\<lparr>m_workerThread := AtRelock\<rparr>, ev)
           | (ev, Some e) \<Rightarrow> (p\<lparr>m_workerThread := Terminated e\<rparr>, ev))
      | AtRelock \<Rightarrow> (inner_check p, [])
      | Returned \<Rightarrow> (p, [])
      | Terminated e \<Rightarrow> (p, []))"

text \<open>
  \<open>Initialize\<close> starts the worker. It gets past its guard only before the first start
  or after a \<open>Shutdown\<close> that joined the worker, so the thread object it assigns to is
  not running.
\<close>

definition Initialize :: "CloudFilesProvider \<Rightarrow> hresult \<times> CloudFilesProvider \<times> event list" where
  "Initialize p =
     (if m_initialized p then (S_OK, p, [])
      else (S_OK,
            p\<lparr>m_shouldStop := False, m_workerThread := AtOuterCheck, m_initialized := True\<rparr>,
            [Wcout ''Initializing Main Booth Drive Cloud Files Provider...'' NoArg,
             Wcout ''Cloud Files Provider initialized successfully'' NoArg]))"

text \<open>The stop request of \<open>Shutdown\<close>: the flag is set under the queue lock.\<close>

definition requestStop :: "CloudFilesProvider \<Rightarrow> CloudFilesProvider" where
  "requestStop p = p\<lparr>m_shouldStop := True\<rparr>"

text \<open>
  \<open>worker_rank\<close>: an upper bound on the steps the worker still takes before its
  function returns once the stop flag is set; it is 0 exactly when no worker thread is
  running.
\<close>

fun worker_rank :: "worker \<Rightarrow> nat" where
  "worker_rank (Running work) = 3"
| "worker_rank AtRelock = 2"
| "worker_rank AtWait = 2"
| "worker_rank AtOuterCheck = 1"
| "worker_rank NotStarted = 0"
| "worker_rank Returned = 0"
| "worker_rank (Terminated e) = 0"

fun terminated :: "worker \<Rightarrow> bool" where
  "terminated (Terminated e) = True"
| "terminated w = False"

text \<open>
  \<open>m_workerThread.join()\<close> with no other thread running: the worker takes its steps
  until its function has returned. \<open>None\<close> is a join that never returns: the stop flag
  is not set, so the worker never leaves its loop, or the process was terminated by an
  uncaught exception. A thread that was never started is not joinable and is skipped.
\<close>

function join :: "host \<Rightarrow> CloudFilesProvider \<Rightarrow> (CloudFilesProvider \<times> event list) option" where
  "join h p =
     (if m_workerThread p = NotStarted \<or> m_workerThread p = Returned then Some (p, [])
      else if terminated (m_workerThread p) \<or> \<not> m_shouldStop p then None
      else (case join h (fst (worker_step h p)) of
              None \<Rightarrow> None
            | Some (p2, ev2) \<Rightarrow> Some (p2, snd (worker_step h p) @ ev2)))"
  by pat_completeness auto
termination
proof (relation "measure (\<lambda>(h, p). worker_rank (m_workerThread p))")
  show "wf (measure (\<lambda>(h, p). worker_rank (m_workerThread p)))"
    by simp
next
  fix h :: host and p :: CloudFilesProvider
  assume a: "\<not> (m_workerThread p = NotStarted \<or> m_workerThread p = Returned)"
    and b: "\<not> (terminated (m_workerThread p) \<or> \<not> m_shouldStop p)"
  from a b have "worker_rank (m_workerThread (fst (worker_step h p))) < worker_rank (m_workerThread p)"
    by (cases "m_workerThread p")
       (auto simp: worker_step_def inner_check_def split: list.splits prod.splits option.splits)
  then show "((h, fst (worker_step h p)), (h, p)) \<in> measure (\<lambda>(h, p). worker_rank (m_workerThread p))"
    by simp
qed

declare join.simps [simp del]

text \<open>
  \<open>Shutdown\<close> in three parts. Past its guard it announces itself and requests the
  stop; it then waits in \<open>join\<close>; when \<open>join\<close> has returned it disconnects and
  clears \<open>m_initialized\<close>. The work queue is not touched.
\<close>

definition Shutdown_request :: "CloudFilesProvider \<Rightarrow> CloudFilesProvider \<times> event list" where
  "Shutdown_request p =
     (requestStop p, [Wcout ''Shutting down Cloud Files Provider...'' NoArg])"

definition Shutdown_finish :: "host \<Rightarrow> CloudFilesProvider \<Rightarrow> CloudFilesProvider \<times> event list" where
  "Shutdown_finish h p =
     (let (p3, ev3) = disconnect h p
      in (p3\<lparr>m_initialized := False\<rparr>, ev3 @ [Wcout ''Cloud Files Provider shut down'' NoArg]))"

definition Shutdown :: "host \<Rightarrow> CloudFilesProvider \<Rightarrow> (CloudFilesProvider \<times> event list) option" where
  "Shutdown h p =
     (if \<not> m_initialized p then Some (p, [])
      else
        let (p1, ev1) = Shutdown_request p
        in (case join h p1 of
              None \<Rightarrow> None
            | Some (p2, ev2) \<Rightarrow>
                let (p3, ev3) = Shutdown_finish h p2
                in Some (p3, ev1 @ ev2 @ ev3)))"

subsection \<open>Threads interleaved\<close>

text \<open>
  The running system: the provider, everything it has done so far, and two history
  lists that the code does not keep: the work items in the order they were pushed, and
  the work items whose \<open>work()\<close> call has ended (by return or by exception), in the
  order it ended.
\<close>

record sys =
  prov :: CloudFilesProvider
  trace :: "event list"
  submitted :: "work_item list"
  executed :: "work_item list"

text \<open>
  What can happen next. The worker thread takes a step. A host thread delivers a fetch
  request. A thread calls \<open>Initialize\<close>. A thread in \<open>Shutdown\<close> gets past the guard
  and requests the stop; later, when the worker's function has returned (or no worker
  was ever started), its \<open>join\<close> returns and it finishes \<open>Shutdown\<close>. A shutdown is
  under way exactly while \<open>m_initialized\<close> and \<open>m_shouldStop\<close> are both set. After
  \<open>std::terminate\<close> nothing happens any more.
\<close>

datatype action =
    WorkerStep
  | FetchRequest cf_callback_info cf_callback_parameters
  | StopRequest
  | ShutdownReturn
  | InitializeCall

definition apply_action :: "host \<Rightarrow> action \<Rightarrow> sys \<Rightarrow> sys" where
  "apply_action h a s =
     (if terminated (m_workerThread (prov s)) then s
      else
        (case a of
           WorkerStep \<Rightarrow>
             (let (p', ev) = worker_step h (prov s)
              in s\<lparr>prov := p', trace := trace s @ ev,
                   executed := executed s @
                     (case m_workerThread (prov s) of Running work \<Rightarrow> [work] | _ \<Rightarrow> [])\<rparr>)
         | FetchRequest info params \<Rightarrow>
             (let (p', ev) = OnFetchData info params (prov s)
              in s\<lparr>prov := p', trace := trace s @ ev,
                   submitted := submitted s @ drop (length (m_workQueue (prov s))) (m_workQueue p')\<rparr>)
         | StopRequest \<Rightarrow>
             (if m_initialized (prov s)
              then (let (p', ev) = Shutdown_request (prov s)
                    in s\<lparr>prov := p', trace := trace s @ ev\<rparr>)
              else s)
         | ShutdownReturn \<Rightarrow>
             (if m_initialized (prov s) \<and> m_shouldStop (prov s) \<and>
                 worker_rank (m_workerThread (prov s)) = 0
              then (let (p', ev) = Shutdown_finish h (prov s)
                    in s\<lparr>prov := p', trace := trace s @ ev\<rparr>)
              else s)
         | InitializeCall \<Rightarrow>
             (let (hr, p', ev) = Initialize (prov s)
              in s\<lparr>prov := p', trace := trace s @ ev\<rparr>)))"

fun run_schedule :: "host \<Rightarrow> action list \<Rightarrow> sys \<Rightarrow> sys" where
  "run_schedule h [] s = s"
| "run_schedule h (a # as) s = run_schedule h as (apply_action h a s)"

text \<open>The item whose \<open>work()\<close> call is in progress, if any.\<close>

fun in_flight :: "worker \<Rightarrow> work_item list" where
  "in_flight (Running work) = [work]"
| "in_flight w = []"

section \<open>Observers, measures and concrete inputs\<close>

subsection \<open>Reading a trace\<close>

text \<open>
  The host and application calls of a trace are its events other than log lines.
\<close>

fun is_Wcout :: "event \<Rightarrow> bool" where
  "is_Wcout (Wcout text arg) = True"
| "is_Wcout e = False"

definition calls :: "event list \<Rightarrow> event list" where
  "calls ev = filter (\<lambda>e. \<not> is_Wcout e) ev"

fun is_ProgressCallback :: "event \<Rightarrow> bool" where
  "is_ProgressCallback (ProgressCallback x) = True"
| "is_ProgressCallback e = False"

fun is_CfDisconnectSyncRoot :: "event \<Rightarrow> bool" where
  "is_CfDisconnectSyncRoot (CfDisconnectSyncRoot k) = True"
| "is_CfDisconnectSyncRoot e = False"

subsection \<open>Progress measures and invariants of the worker loop\<close>

text \<open>
  \<open>pending\<close> bounds the number of worker steps until an undisturbed worker has emptied
  its queue: two per queued item (run it, re-take the lock and pop the next), one more
  for an item in flight or an outer test still to pass.
\<close>

fun pending_bonus :: "worker \<Rightarrow> work_item list \<Rightarrow> nat" where
  "pending_bonus (Running work) q = 1"
| "pending_bonus AtOuterCheck q = (if q = [] then 0 else 1)"
| "pending_bonus w q = 0"

definition pending :: "CloudFilesProvider \<Rightarrow> nat" where
  "pending p = 2 * length (m_workQueue p) + pending_bonus (m_workerThread p) (m_workQueue p)"

text \<open>
  \<open>after_stop p0 w ex\<close> describes the system after a stop request that found the
  provider \<open>p0\<close> with \<open>w\<close> in flight and \<open>ex\<close> executed: the stop flag stays set, the queue
  of \<open>p0\<close> is still the head of the queue, and the worker is either still inside \<open>w\<close>
  or past it on its way out. \<open>alive h p0\<close> describes a worker that runs undisturbed with
  no stop requested and whose pending items do not raise.
\<close>

definition after_stop :: "CloudFilesProvider \<Rightarrow> work_item \<Rightarrow> work_item list \<Rightarrow> sys \<Rightarrow> bool" where
  "after_stop p0 w ex s \<longleftrightarrow>
     m_shouldStop (prov s) \<and>
     (\<exists>later. m_workQueue (prov s) = m_workQueue p0 @ later) \<and>
     (m_workerThread (prov s) = Running w \<and> executed s = ex \<and> m_initialized (prov s) \<and>
        m_fetchDataCallback (prov s) = m_fetchDataCallback p0 \<and>
        m_connectionKey (prov s) = m_connectionKey p0 \<or>
      (m_workerThread (prov s) = AtRelock \<or> m_workerThread (prov s) = AtOuterCheck) \<and>
        executed s = ex @ [w] \<and> m_initialized (prov s) \<or>
      m_workerThread (prov s) = Returned \<and> executed s = ex @ [w])"

definition alive :: "host \<Rightarrow> CloudFilesProvider \<Rightarrow> sys \<Rightarrow> bool" where
  "alive h p0 s \<longleftrightarrow>
     \<not> m_shouldStop (prov s) \<and> 0 < worker_rank (m_workerThread (prov s)) \<and>
     m_fetchDataCallback (prov s) = m_fetchDataCallback p0 \<and>
     m_connectionKey (prov s) = m_connectionKey p0 \<and>
     (\<forall>w \<in> set (in_flight (m_workerThread (prov s)) @ m_workQueue (prov s)).
        snd (run_work h p0 w) = None)"

subsection \<open>Concrete hosts\<close>

text \<open>
  A host on which every call succeeds, whose string hash is the length of the string,
  and variants of it on which one call fails.
\<close>

definition sample_host :: host where
  "sample_host =
     \<lparr>CF_CONNECTION_KEY_INVALID = - 1, CF_TRANSFER_KEY_INVALID = - 1,
      ret_GetLastError = 2,
      ret_CreateDirectoryW = (\<lambda>path. True),
      ret_CfRegisterSyncRoot = (\<lambda>path registration. 0),
      ret_CfConnectSyncRoot = (\<lambda>path. (0, 7)),
      ret_CfUnregisterSyncRoot = (\<lambda>path. 0),
      ret_CfCreatePlaceholders = (\<lambda>path info. 0),
      ret_CreateFileW = (\<lambda>path. 5),
      ret_CfExecute = (\<lambda>op. 0),
      ret_CfSetInSyncState = (\<lambda>fh state. 0),
      ret_CfSetPinState = (\<lambda>fh state. 0),
      ret_HeapAlloc = (\<lambda>n size. True),
      std_hash = (\<lambda>s. of_nat (length s))\<rparr>"

definition failing_unregister_host :: host where
  "failing_unregister_host = sample_host\<lparr>ret_CfUnregisterSyncRoot := (\<lambda>path. 0x80070005)\<rparr>"

definition failing_transfer_host :: host where
  "failing_transfer_host = sample_host\<lparr>ret_CfExecute := (\<lambda>op. 0x80004005)\<rparr>"

definition failing_directory_host :: host where
  "failing_directory_host =
     sample_host\<lparr>ret_CreateDirectoryW := (\<lambda>path. False), ret_GetLastError := 5\<rparr>"

definition failing_open_host :: host where
  "failing_open_host = sample_host\<lparr>ret_CreateFileW := (\<lambda>path. - 1)\<rparr>"

definition other_host :: host where
  "other_host = sample_host\<lparr>ret_HeapAlloc := (\<lambda>n size. size < 100), ret_GetLastError := 9\<rparr>"

subsection \<open>Concrete providers, work items and schedules\<close>

text \<open>
  The sync root is \<open>D\<close>, the paths are \<open>a\<close>, \<open>b\<close> and \<open>c\<close>; the fetch source throws for
  \<open>a\<close> and returns three bytes for every other path. The events for \<open>a\<close>, \<open>b\<close> and \<open>c\<close>
  carry the correlation keys 101, 102 and 103 and ask for the file offsets 1, 2 and 3.
\<close>

definition connected_provider :: CloudFilesProvider where
  "connected_provider =
     (new_CloudFilesProvider sample_host)\<lparr>m_syncRootPath := [0x44], m_connectionKey := 7\<rparr>"

definition sample_info :: file_basic_info where
  "sample_info = \<lparr>CreationTime = 1, LastAccessTime = 2, LastWriteTime = 3, ChangeTime = 4,
                   FileAttributes = 32\<rparr>"

definition huge_buffer :: "byte list" where
  "huge_buffer = replicate 4294967296 0"

definition sample_progress :: "real \<Rightarrow> unit" where
  "sample_progress fraction = ()"

definition sample_fetch :: "wstring \<Rightarrow> cpp_exception + byte list" where
  "sample_fetch path = (if path = [0x61] then Inl (app_exception 1) else Inr [1, 2, 3])"

definition fetching_provider :: CloudFilesProvider where
  "fetching_provider = connected_provider\<lparr>m_fetchDataCallback := Some sample_fetch\<rparr>"

definition item_a :: work_item where
  "item_a = \<lparr>work_relativePath = [0x61], work_transferKey = 1\<rparr>"

definition item_b :: work_item where
  "item_b = \<lparr>work_relativePath = [0x62], work_transferKey = 2\<rparr>"

definition item_c :: work_item where
  "item_c = \<lparr>work_relativePath = [0x63], work_transferKey = 3\<rparr>"

definition fetch_c :: action where
  "fetch_c =
     FetchRequest \<lparr>NormalizedPath = [0x63], CorrelationKey = 103\<rparr>
       \<lparr>FetchData_RequiredFileOffset = 3\<rparr>"

definition fetch_a :: action where
  "fetch_a =
     FetchRequest \<lparr>NormalizedPath = [0x61], CorrelationKey = 101\<rparr>
       \<lparr>FetchData_RequiredFileOffset = 1\<rparr>"

definition fetch_b :: action where
  "fetch_b =
     FetchRequest \<lparr>NormalizedPath = [0x62], CorrelationKey = 102\<rparr>
       \<lparr>FetchData_RequiredFileOffset = 2\<rparr>"

definition info_b :: cf_callback_info where
  "info_b = \<lparr>NormalizedPath = [0x62], CorrelationKey = 102\<rparr>"

definition params_b :: cf_callback_parameters where
  "params_b = \<lparr>FetchData_RequiredFileOffset = 2\<rparr>"

definition huge_fetch :: "wstring \<Rightarrow> cpp_exception + byte list" where
  "huge_fetch path = Inr huge_buffer"

definition huge_provider :: CloudFilesProvider where
  "huge_provider = connected_provider\<lparr>m_fetchDataCallback := Some huge_fetch\<rparr>"

definition fresh_start :: sys where
  "fresh_start = \<lparr>prov = fetching_provider, trace = [], submitted = [], executed = []\<rparr>"

definition idle_start :: sys where
  "idle_start =
     \<lparr>prov = fetching_provider\<lparr>m_workQueue := [item_b]\<rparr>,
      trace = [], submitted = [item_b], executed = []\<rparr>"

definition loss_schedule :: "action list" where
  "loss_schedule =
     [InitializeCall, fetch_a, fetch_b,
      WorkerStep, WorkerStep, WorkerStep, WorkerStep, WorkerStep, WorkerStep]"

definition ok_start :: sys where
  "ok_start =
     \<lparr>prov = fetching_provider\<lparr>m_initialized := True, m_workerThread := AtOuterCheck,
               m_workQueue := [item_b]\<rparr>,
      trace = [], submitted = [item_b], executed = []\<rparr>"

definition in_flight_start :: sys where
  "in_flight_start =
     \<lparr>prov = fetching_provider\<lparr>m_initialized := True, m_workerThread := Running item_b,
               m_workQueue := [item_c]\<rparr>,
      trace = [], submitted = [item_b, item_c], executed = []\<rparr>"

definition crash_start :: sys where
  "crash_start =
     \<lparr>prov = fetching_provider\<lparr>m_initialized := True, m_workerThread := AtOuterCheck,
               m_workQueue := [item_a, item_b]\<rparr>,
      trace = [], submitted = [item_a, item_b], executed = []\<rparr>"

definition crash_running :: sys where
  "crash_running =
     \<lparr>prov = fetching_provider\<lparr>m_initialized := True, m_workerThread := Running item_a,
               m_workQueue := [item_b]\<rparr>,
      trace = [], submitted = [item_a, item_b], executed = []\<rparr>"

definition after_stop_schedule :: "action list" where
  "after_stop_schedule =
     [WorkerStep, fetch_c, WorkerStep, ShutdownReturn, WorkerStep, ShutdownReturn]"

definition restart_schedule :: "action list" where
  "restart_schedule =
     [StopRequest, WorkerStep, WorkerStep, WorkerStep, ShutdownReturn, InitializeCall,
      WorkerStep, WorkerStep, WorkerStep]"

section \<open>Properties\<close>

subsection \<open>Status codes\<close>

text \<open>
  \<open>HRESULT_FROM_WIN32\<close> turns every nonzero error code into a failure, and only those.
\<close>

lemma sint_neg_iff_bit31: "(sint (w::32 word) < 0) = bit w 31"
  using bit_last_iff [of w] by simp

lemma FAILED_HRESULT_FROM_WIN32: "FAILED (HRESULT_FROM_WIN32 x) \<longleftrightarrow> x \<noteq> 0"
proof (cases "sint x \<le> 0")
  case True
  then show ?thesis
    by (auto simp: FAILED_def HRESULT_FROM_WIN32_def order_less_le signed_eq_0_iff)
next
  case False
  then have "x \<noteq> 0" by auto
  moreover have "bit ((x AND 0xFFFF) OR 0x80070000) 31"
    by (simp add: bit_or_iff)
  ultimately show ?thesis using False
    by (simp add: FAILED_def HRESULT_FROM_WIN32_def sint_neg_iff_bit31)
qed

lemma unat_of_nat_32: "unat (of_nat n :: 32 word) = n mod 4294967296"
  by (simp add: unat_of_nat)

subsection \<open>Shutdown, the terminated process, and what a work item depends on\<close>

lemma Shutdown_disconnects:
  assumes "Shutdown h p = Some (p', ev)" and "m_initialized p"
  shows "m_connectionKey p' = CF_CONNECTION_KEY_INVALID h \<and> \<not> m_initialized p'"
  using assms
  by (auto simp: Shutdown_def Shutdown_request_def Shutdown_finish_def disconnect_def Let_def
      split: option.splits prod.splits if_splits)

lemma join_Returned: "m_workerThread p = Returned \<Longrightarrow> join h p = Some (p, [])"
  by (subst join.simps) simp

lemma terminated_apply_action:
  "terminated (m_workerThread (prov s)) \<Longrightarrow> apply_action h a s = s"
  by (simp add: apply_action_def)

lemma terminated_run_schedule:
  "terminated (m_workerThread (prov s)) \<Longrightarrow> run_schedule h sched s = s"
  by (induction sched) (simp_all add: terminated_apply_action)

lemma run_work_cong:
  "m_fetchDataCallback p = m_fetchDataCallback p' \<Longrightarrow> m_connectionKey p = m_connectionKey p' \<Longrightarrow>
   run_work h p w = run_work h p' w"
  by (auto simp: run_work_def split: option.splits sum.splits)

subsection \<open>Every submitted item is executed, in flight or queued\<close>

lemma apply_action_queue_inv:
  assumes "submitted s = executed s @ in_flight (m_workerThread (prov s)) @ m_workQueue (prov s)"
    and "m_initialized (prov s) \<or> worker_rank (m_workerThread (prov s)) = 0"
  shows "submitted (apply_action h a s) =
         executed (apply_action h a s) @
         in_flight (m_workerThread (prov (apply_action h a s))) @
         m_workQueue (prov (apply_action h a s)) \<and>
         (m_initialized (prov (apply_action h a s)) \<or>
          worker_rank (m_workerThread (prov (apply_action h a s))) = 0)"
proof (cases a)
  case WorkerStep
  then show ?thesis using assms
    by (cases "m_workerThread (prov s)")
       (auto simp: apply_action_def worker_step_def inner_check_def
          split: list.splits prod.splits option.splits)
next
  case (FetchRequest info params)
  then show ?thesis using assms
    by (auto simp: apply_action_def OnFetchData_def Let_def)
next
  case StopRequest
  then show ?thesis using assms
    by (auto simp: apply_action_def Shutdown_request_def requestStop_def)
next
  case ShutdownReturn
  then show ?thesis using assms
    by (auto simp: apply_action_def Shutdown_finish_def disconnect_def)
next
  case InitializeCall
  then show ?thesis using assms
    by (cases "m_workerThread (prov s)") (auto simp: apply_action_def Initialize_def)
qed

lemma run_schedule_queue_inv:
  "submitted s = executed s @ in_flight (m_workerThread (prov s)) @ m_workQueue (prov s) \<Longrightarrow>
   m_initialized (prov s) \<or> worker_rank (m_workerThread (prov s)) = 0 \<Longrightarrow>
   submitted (run_schedule h sched s) =
     executed (run_schedule h sched s) @
     in_flight (m_workerThread (prov (run_schedule h sched s))) @
     m_workQueue (prov (run_schedule h sched s))"
proof (induction sched arbitrary: s)
  case Nil
  then show ?case by simp
next
  case (Cons a sched)
  from apply_action_queue_inv [OF Cons.prems, of h a]
  have 1: "submitted (apply_action h a s) =
         executed (apply_action h a s) @
         in_flight (m_workerThread (prov (apply_action h a s))) @
         m_workQueue (prov (apply_action h a s))"
    and 2: "m_initialized (prov (apply_action h a s)) \<or>
          worker_rank (m_workerThread (prov (apply_action h a s))) = 0"
    by simp_all
  show ?case
    using Cons.IH [OF 1 2] by simp
qed

subsection \<open>After a stop request\<close>

lemma after_stop_apply_action:
  assumes "after_stop p0 w ex s" and "snd (run_work h p0 w) = None" and "a \<noteq> InitializeCall"
  shows "after_stop p0 w ex (apply_action h a s) \<and>
         worker_rank (m_workerThread (prov (apply_action h a s))) \<le>
           worker_rank (m_workerThread (prov s)) - (if a = WorkerStep then 1 else 0)"
proof (cases a)
  case WorkerStep
  have r: "m_workerThread (prov s) = Running w \<Longrightarrow> run_work h (prov s) w = run_work h p0 w"
    using assms(1) by (intro run_work_cong) (auto simp: after_stop_def)
  show ?thesis using assms WorkerStep r
    by (cases "m_workerThread (prov s)")
       (auto simp: after_stop_def apply_action_def worker_step_def inner_check_def
          split: list.splits prod.splits option.splits)
next
  case (FetchRequest info params)
  then show ?thesis using assms
    by (auto simp: after_stop_def apply_action_def OnFetchData_def Let_def)
next
  case StopRequest
  then show ?thesis using assms
    by (auto simp: after_stop_def apply_action_def Shutdown_request_def requestStop_def)
next
  case ShutdownReturn
  then show ?thesis using assms
    by (auto simp: after_stop_def apply_action_def Shutdown_finish_def disconnect_def)
next
  case InitializeCall
  then show ?thesis using assms by simp
qed

lemma after_stop_run_schedule:
  assumes "after_stop p0 w ex s" and "snd (run_work h p0 w) = None"
    and "InitializeCall \<notin> set sched"
  shows "after_stop p0 w ex (run_schedule h sched s) \<and>
         worker_rank (m_workerThread (prov (run_schedule h sched s))) \<le>
           worker_rank (m_workerThread (prov s)) - count_list sched WorkerStep"
  using assms(1,3)
proof (induction sched arbitrary: s)
  case Nil
  then show ?case by simp
next
  case (Cons a sched)
  from Cons.prems(2) have n: "a \<noteq> InitializeCall" and m: "InitializeCall \<notin> set sched"
    by auto
  from after_stop_apply_action [OF Cons.prems(1) assms(2) n]
  have 1: "after_stop p0 w ex (apply_action h a s)"
    and 2: "worker_rank (m_workerThread (prov (apply_action h a s))) \<le>
           worker_rank (m_workerThread (prov s)) - (if a = WorkerStep then 1 else 0)"
    by simp_all
  from Cons.IH [OF 1 m] 2 show ?case
    by (auto split: if_splits)
qed

subsection \<open>An undisturbed worker empties its queue\<close>

lemma alive_worker_step:
  assumes "alive h p0 s"
  shows "alive h p0 (apply_action h WorkerStep s) \<and>
         submitted (apply_action h WorkerStep s) = submitted s \<and>
         pending (prov (apply_action h WorkerStep s)) \<le> pending (prov s) - 1"
proof (cases "m_workerThread (prov s)")
  case (Running work)
  have "run_work h (prov s) work = run_work h p0 work"
    using assms by (intro run_work_cong) (simp_all add: alive_def)
  moreover have "snd (run_work h p0 work) = None"
    using assms Running by (simp add: alive_def)
  ultimately show ?thesis using assms Running
    by (auto simp: alive_def apply_action_def worker_step_def pending_def
        split: prod.splits option.splits)
qed (use assms in \<open>auto simp: alive_def apply_action_def worker_step_def inner_check_def pending_def
        split: list.splits\<close>)

lemma alive_worker_steps:
  "alive h p0 s \<Longrightarrow>
   alive h p0 (run_schedule h (replicate n WorkerStep) s) \<and>
   submitted (run_schedule h (replicate n WorkerStep) s) = submitted s \<and>
   pending (prov (run_schedule h (replicate n WorkerStep) s)) \<le> pending (prov s) - n"
proof (induction n arbitrary: s)
  case 0
  then show ?case by simp
next
  case (Suc n)
  from alive_worker_step [OF Suc.prems]
  have 1: "alive h p0 (apply_action h WorkerStep s)"
    and 2: "submitted (apply_action h WorkerStep s) = submitted s"
    and 3: "pending (prov (apply_action h WorkerStep s)) \<le> pending (prov s) - 1"
    by simp_all
  from Suc.IH [OF 1] 2 3 show ?case
    by simp arith
qed

lemma pending_0:
  "pending p = 0 \<Longrightarrow> m_workQueue p = [] \<and> in_flight (m_workerThread p) = []"
  by (cases "m_workerThread p") (auto simp: pending_def)

lemma pending_bound: "pending p \<le> 2 * length (m_workQueue p) + 1"
  by (cases "m_workerThread p") (auto simp: pending_def)

subsection \<open>The work queue and its worker\<close>

lemmas concrete_defs =
  fetch_a_def fetch_b_def fetch_c_def fetching_provider_def connected_provider_def new_CloudFilesProvider_def
  sample_fetch_def item_a_def item_b_def item_c_def

lemmas step_defs =
  apply_action_def worker_step_def inner_check_def run_work_def OnFetchData_def requestStop_def
  Shutdown_request_def Shutdown_finish_def Initialize_def disconnect_def Let_def

text \<open>
  Claim C1 as stated fails on "no loss": the worker calls \<open>work()\<close> with no handler, so
  an item that raises ends the worker and the items behind it are never executed,
  although no stop is requested. On a fresh provider, after \<open>Initialize\<close> and fetch
  requests for \<open>a\<close> and \<open>b\<close>, the worker executes \<open>a\<close>, whose fetch source throws, and
  \<open>b\<close> stays in the queue for good.
\<close>

theorem raising_item_loses_queued_item:
  "submitted fresh_start = [] \<and>
   m_workQueue (prov fresh_start) = [] \<and>
   m_workerThread (prov fresh_start) = NotStarted \<and>
   submitted (run_schedule sample_host loss_schedule fresh_start) = [item_a, item_b] \<and>
   executed (run_schedule sample_host loss_schedule fresh_start) = [item_a] \<and>
   m_workQueue (prov (run_schedule sample_host loss_schedule fresh_start)) = [item_b] \<and>
   \<not> m_shouldStop (prov (run_schedule sample_host loss_schedule fresh_start)) \<and>
   m_workerThread (prov (run_schedule sample_host loss_schedule fresh_start)) =
     Terminated (app_exception 1)"
  by (simp add: fresh_start_def loss_schedule_def concrete_defs step_defs)

text \<open>
  Claim C1, amended. Take any system in which every submitted item is accounted for
  (the submitted items are the executed ones, then the one in flight, then the queued
  ones, in this order) and whose worker is not running unless the provider is
  initialised; both are true of a fresh system. Let worker steps, fetch requests,
  \<open>Initialize\<close> calls and the two halves of \<open>Shutdown\<close> interleave in any way. The
  relation still holds afterwards: the executed items are an initial segment of the
  submitted items, in submission order, none executed twice and none skipped; with
  uniquely tagged submissions no item occurs twice among the executed ones. Nothing is
  lost as long as no stop is requested and no item raises: a running worker whose
  pending items do not raise, left to take \<open>2 * (queue length) + 1\<close> steps, has executed
  every submitted item and emptied the queue; and so has the worker that \<open>Initialize\<close>
  starts on a provider that is not initialised, after as many steps.
\<close>

theorem worker_runs_items_in_submission_order:
  assumes "submitted s = executed s @ in_flight (m_workerThread (prov s)) @ m_workQueue (prov s)"
    and "m_initialized (prov s) \<or> worker_rank (m_workerThread (prov s)) = 0"
    and "s' = run_schedule h sched s"
    and "s'' = run_schedule h (replicate (2 * length (m_workQueue (prov s)) + 1) WorkerStep) s"
    and "si = run_schedule h
           (InitializeCall # replicate (2 * length (m_workQueue (prov s)) + 1) WorkerStep) s"
  shows "submitted s' = executed s' @ in_flight (m_workerThread (prov s')) @ m_workQueue (prov s') \<and>
         take (length (executed s')) (submitted s') = executed s' \<and>
         (distinct (submitted s') \<longrightarrow> distinct (executed s')) \<and>
         (\<not> m_shouldStop (prov s) \<and> 0 < worker_rank (m_workerThread (prov s)) \<and>
          (\<forall>w \<in> set (in_flight (m_workerThread (prov s)) @ m_workQueue (prov s)).
             snd (run_work h (prov s) w) = None) \<longrightarrow>
          executed s'' = submitted s \<and> m_workQueue (prov s'') = []) \<and>
         (\<not> m_initialized (prov s) \<and> \<not> terminated (m_workerThread (prov s)) \<and>
          (\<forall>w \<in> set (m_workQueue (prov s)). snd (run_work h (prov s) w) = None) \<longrightarrow>
          executed si = submitted s \<and> m_workQueue (prov si) = [])"
proof -
  have inv: "submitted s' = executed s' @ in_flight (m_workerThread (prov s')) @ m_workQueue (prov s')"
    unfolding assms(3) by (rule run_schedule_queue_inv [OF assms(1,2)])
  have inv'': "submitted s'' = executed s'' @ in_flight (m_workerThread (prov s'')) @ m_workQueue (prov s'')"
    unfolding assms(4) by (rule run_schedule_queue_inv [OF assms(1,2)])
  have invi: "submitted si = executed si @ in_flight (m_workerThread (prov si)) @ m_workQueue (prov si)"
    unfolding assms(5) by (rule run_schedule_queue_inv [OF assms(1,2)])
  have live: "executed s'' = submitted s \<and> m_workQueue (prov s'') = []"
    if a: "alive h (prov s) s"
  proof -
    from alive_worker_steps [OF a, of "2 * length (m_workQueue (prov s)) + 1"]
    have 1: "submitted s'' = submitted s"
      and 2: "pending (prov s'') \<le> pending (prov s) - (2 * length (m_workQueue (prov s)) + 1)"
      by (simp_all add: assms(4))
    from 2 pending_bound [of "prov s"] have "pending (prov s'') = 0"
      by simp
    from pending_0 [OF this] inv'' 1 show ?thesis
      by simp
  qed
  have started: "executed si = submitted s \<and> m_workQueue (prov si) = []"
    if n: "\<not> m_initialized (prov s)" and t: "\<not> terminated (m_workerThread (prov s))"
      and q: "\<forall>w \<in> set (m_workQueue (prov s)). snd (run_work h (prov s) w) = None"
  proof -
    let ?s1 = "apply_action h InitializeCall s"
    have a: "alive h (prov s) ?s1"
      using n t q by (simp add: alive_def apply_action_def Initialize_def)
    have su: "submitted ?s1 = submitted s"
      and qu: "m_workQueue (prov ?s1) = m_workQueue (prov s)"
      using n t by (simp_all add: apply_action_def Initialize_def)
    from alive_worker_steps [OF a, of "2 * length (m_workQueue (prov s)) + 1"]
    have 1: "submitted si = submitted s"
      and 2: "pending (prov si) \<le> pending (prov ?s1) - (2 * length (m_workQueue (prov s)) + 1)"
      by (simp_all add: assms(5) su)
    from 2 pending_bound [of "prov ?s1"] have "pending (prov si) = 0"
      by (simp add: qu)
    from pending_0 [OF this] invi 1 show ?thesis
      by simp
  qed
  from inv have pre: "take (length (executed s')) (submitted s') = executed s'"
    by simp
  from inv have dis: "distinct (submitted s') \<longrightarrow> distinct (executed s')"
    by auto
  from inv pre dis live started show ?thesis
    by (auto simp: alive_def)
qed

text \<open>
  Claim C1, amended, at concrete inputs: a running worker with one item queued and a
  second fetch request arriving while it runs, both executed in submission order; and
  a provider not yet initialised with one item queued, which the worker started by
  \<open>Initialize\<close> executes.
\<close>

theorem worker_runs_items_in_submission_order_witness:
  "submitted ok_start =
     executed ok_start @ in_flight (m_workerThread (prov ok_start)) @ m_workQueue (prov ok_start) \<and>
   m_initialized (prov ok_start) \<and>
   \<not> m_shouldStop (prov ok_start) \<and>
   0 < worker_rank (m_workerThread (prov ok_start)) \<and>
   snd (run_work sample_host (prov ok_start) item_b) = None \<and>
   submitted (run_schedule sample_host
     [WorkerStep, fetch_c, WorkerStep, WorkerStep, WorkerStep, WorkerStep] ok_start) =
     [item_b, item_c] \<and>
   executed (run_schedule sample_host
     [WorkerStep, fetch_c, WorkerStep, WorkerStep, WorkerStep, WorkerStep] ok_start) =
     [item_b, item_c] \<and>
   distinct (executed (run_schedule sample_host
     [WorkerStep, fetch_c, WorkerStep, WorkerStep, WorkerStep, WorkerStep] ok_start)) \<and>
   executed (run_schedule sample_host
     (replicate (2 * length (m_workQueue (prov ok_start)) + 1) WorkerStep) ok_start) =
     submitted ok_start \<and>
   submitted idle_start =
     executed idle_start @ in_flight (m_workerThread (prov idle_start)) @
     m_workQueue (prov idle_start) \<and>
   worker_rank (m_workerThread (prov idle_start)) = 0 \<and>
   \<not> m_initialized (prov idle_start) \<and>
   \<not> terminated (m_workerThread (prov idle_start)) \<and>
   m_workQueue (prov idle_start) = [item_b] \<and>
   snd (run_work sample_host (prov idle_start) item_b) = None \<and>
   executed (run_schedule sample_host
     (InitializeCall # replicate (2 * length (m_workQueue (prov idle_start)) + 1) WorkerStep)
     idle_start) = submitted idle_start"
proof -
  have i: "submitted ok_start =
     executed ok_start @ in_flight (m_workerThread (prov ok_start)) @ m_workQueue (prov ok_start)"
    by (simp add: ok_start_def)
  have a: "\<not> m_shouldStop (prov ok_start)" and b: "0 < worker_rank (m_workerThread (prov ok_start))"
    and j: "m_initialized (prov ok_start)"
    by (simp_all add: ok_start_def concrete_defs)
  have c: "snd (run_work sample_host (prov ok_start) item_b) = None"
    by (simp add: ok_start_def concrete_defs run_work_def Let_def)
  then have c': "\<forall>w \<in> set (in_flight (m_workerThread (prov ok_start)) @ m_workQueue (prov ok_start)).
      snd (run_work sample_host (prov ok_start) w) = None"
    by (simp add: ok_start_def)
  have d: "submitted (run_schedule sample_host
     [WorkerStep, fetch_c, WorkerStep, WorkerStep, WorkerStep, WorkerStep] ok_start) =
     [item_b, item_c]"
    by (simp add: ok_start_def concrete_defs step_defs)
  have e: "executed (run_schedule sample_host
     [WorkerStep, fetch_c, WorkerStep, WorkerStep, WorkerStep, WorkerStep] ok_start) =
     [item_b, item_c]"
    by (simp add: ok_start_def concrete_defs step_defs)
  have f: "distinct (submitted (run_schedule sample_host
     [WorkerStep, fetch_c, WorkerStep, WorkerStep, WorkerStep, WorkerStep] ok_start))"
    unfolding d by (simp add: item_b_def item_c_def)
  have i2: "submitted idle_start =
     executed idle_start @ in_flight (m_workerThread (prov idle_start)) @
     m_workQueue (prov idle_start)"
    and r2: "worker_rank (m_workerThread (prov idle_start)) = 0"
    and n2: "\<not> m_initialized (prov idle_start)"
    and t2: "\<not> terminated (m_workerThread (prov idle_start))"
    and q2: "m_workQueue (prov idle_start) = [item_b]"
    by (simp_all add: idle_start_def concrete_defs)
  have c2: "snd (run_work sample_host (prov idle_start) item_b) = None"
    by (simp add: idle_start_def concrete_defs run_work_def Let_def)
  then have c2': "\<forall>w \<in> set (m_workQueue (prov idle_start)).
      snd (run_work sample_host (prov idle_start) w) = None"
    by (simp add: q2)
  show ?thesis
    using i j a b c c' d e f i2 r2 n2 t2 q2 c2 c2'
      worker_runs_items_in_submission_order [OF i disjI1 [OF j] refl refl refl,
        where h = sample_host
        and sched = "[WorkerStep, fetch_c, WorkerStep, WorkerStep, WorkerStep, WorkerStep]"]
      worker_runs_items_in_submission_order [OF i2 disjI2 [OF r2] refl refl refl,
        where h = sample_host and sched = "[]"]
    by blast
qed

text \<open>
  Claim C2 as stated fails: the thread function calls \<open>work()\<close> with no handler around
  it. With two items queued and a fetch source that throws for the first, the worker
  is ended by the exception, nothing is written to the log, and the second item stays
  in the queue however many further steps the worker is offered.
\<close>

theorem exception_stops_all_later_items:
  "m_workQueue (prov crash_start) = [item_a, item_b] \<and>
   m_workerThread (prov (run_schedule sample_host
     [WorkerStep, WorkerStep, WorkerStep, WorkerStep, WorkerStep, WorkerStep] crash_start)) =
     Terminated (app_exception 1) \<and>
   executed (run_schedule sample_host
     [WorkerStep, WorkerStep, WorkerStep, WorkerStep, WorkerStep, WorkerStep] crash_start) =
     [item_a] \<and>
   m_workQueue (prov (run_schedule sample_host
     [WorkerStep, WorkerStep, WorkerStep, WorkerStep, WorkerStep, WorkerStep] crash_start)) =
     [item_b] \<and>
   trace (run_schedule sample_host
     [WorkerStep, WorkerStep, WorkerStep, WorkerStep, WorkerStep, WorkerStep] crash_start) =
     [FetchDataCallback [0x61]]"
  by (simp add: crash_start_def concrete_defs step_defs)

text \<open>
  Claim C2, amended. An exception raised by a work item is not caught by the worker
  loop: it ends the worker thread. From then on nothing changes, whatever is scheduled:
  the queue keeps every item that was still queued, no further item is executed, and
  the raising item has written nothing to the log.
\<close>

theorem exception_ends_worker:
  assumes "m_workerThread (prov s) = Running w"
    and "run_work h (prov s) w = (ev, Some e)"
    and "s' = run_schedule h (WorkerStep # sched) s"
  shows "s' = s\<lparr>prov := (prov s)\<lparr>m_workerThread := Terminated e\<rparr>,
                 trace := trace s @ ev, executed := executed s @ [w]\<rparr> \<and>
         m_workQueue (prov s') = m_workQueue (prov s) \<and>
         filter is_Wcout ev = []"
proof -
  have 1: "apply_action h WorkerStep s =
      s\<lparr>prov := (prov s)\<lparr>m_workerThread := Terminated e\<rparr>,
        trace := trace s @ ev, executed := executed s @ [w]\<rparr>"
    using assms(1,2) by (simp add: apply_action_def worker_step_def)
  have 2: "filter is_Wcout ev = []"
    using assms(2) by (auto simp: run_work_def Let_def split: option.splits sum.splits)
  show ?thesis
    unfolding assms(3) using 1 2 by (simp add: terminated_run_schedule)
qed

text \<open>
  Claim C2, amended, at a concrete input: the item in flight throws, one item is queued
  behind it, and a fetch request and further worker steps follow.
\<close>

theorem exception_ends_worker_witness:
  "m_workerThread (prov crash_running) = Running item_a \<and>
   run_work sample_host (prov crash_running) item_a =
     ([FetchDataCallback [0x61]], Some (app_exception 1)) \<and>
   run_schedule sample_host (WorkerStep # [WorkerStep, fetch_c, WorkerStep, WorkerStep]) crash_running =
     crash_running\<lparr>prov := (prov crash_running)\<lparr>m_workerThread := Terminated (app_exception 1)\<rparr>,
       trace := trace crash_running @ [FetchDataCallback [0x61]],
       executed := executed crash_running @ [item_a]\<rparr> \<and>
   m_workQueue (prov (run_schedule sample_host
     (WorkerStep # [WorkerStep, fetch_c, WorkerStep, WorkerStep]) crash_running)) =
     m_workQueue (prov crash_running)"
proof -
  have a: "m_workerThread (prov crash_running) = Running item_a"
    by (simp add: crash_running_def)
  have b: "run_work sample_host (prov crash_running) item_a =
     ([FetchDataCallback [0x61]], Some (app_exception 1))"
    by (simp add: crash_running_def concrete_defs run_work_def)
  show ?thesis
    using a b exception_ends_worker [OF a b refl, where sched = "[WorkerStep, fetch_c, WorkerStep, WorkerStep]"]
    by blast
qed

text \<open>
  Claim C3 as stated fails on "ever": \<open>Shutdown\<close> leaves the queued items in
  \<open>m_workQueue\<close>, and \<open>Initialize\<close> may be called again once \<open>Shutdown\<close> has cleared
  \<open>m_initialized\<close>. With one item in flight and one queued, the stop request lets the
  first finish and the worker return; after \<open>Shutdown\<close> has returned and \<open>Initialize\<close>
  has started a new worker, that worker executes the item that was queued at the stop.
\<close>

theorem restarted_worker_executes_queued_item:
  "m_workerThread (prov in_flight_start) = Running item_b \<and>
   m_workQueue (prov in_flight_start) = [item_c] \<and>
   executed in_flight_start = [] \<and>
   executed (run_schedule sample_host (take 5 restart_schedule) in_flight_start) = [item_b] \<and>
   m_workerThread (prov (run_schedule sample_host (take 5 restart_schedule) in_flight_start)) =
     Returned \<and>
   m_workQueue (prov (run_schedule sample_host (take 5 restart_schedule) in_flight_start)) =
     [item_c] \<and>
   executed (run_schedule sample_host restart_schedule in_flight_start) = [item_b, item_c]"
  by (simp add: restart_schedule_def in_flight_start_def concrete_defs step_defs sample_host_def)

text \<open>
  Claim C3, amended. A stop is requested on an initialised provider while the worker is
  inside \<open>work()\<close> with item \<open>w\<close> (which does not raise) and \<open>M\<close> items are queued. Under
  every continuation of worker steps, fetch requests, further stop requests and the
  return of \<open>Shutdown\<close>, as long as \<open>Initialize\<close> is not called again: the executed
  items are those executed before, followed at most by \<open>w\<close>; the \<open>M\<close> items remain at the
  head of the queue; and once the worker has taken three steps its function has
  returned, with exactly \<open>w\<close> added to the executed items.
\<close>

theorem stop_lets_only_in_flight_item_finish:
  assumes "m_initialized (prov s)"
    and "m_workerThread (prov s) = Running w"
    and "snd (run_work h (prov s) w) = None"
    and "InitializeCall \<notin> set sched"
    and "s' = run_schedule h sched (apply_action h StopRequest s)"
  shows "(executed s' = executed s \<or> executed s' = executed s @ [w]) \<and>
         take (length (m_workQueue (prov s))) (m_workQueue (prov s')) = m_workQueue (prov s) \<and>
         (3 \<le> count_list sched WorkerStep \<longrightarrow>
            m_workerThread (prov s') = Returned \<and> executed s' = executed s @ [w])"
proof -
  have a: "after_stop (prov s) w (executed s) (apply_action h StopRequest s)"
    using assms(1,2)
    by (simp add: after_stop_def apply_action_def Shutdown_request_def requestStop_def)
  have t: "m_workerThread (prov (apply_action h StopRequest s)) = Running w"
    using assms(1,2) by (simp add: apply_action_def Shutdown_request_def requestStop_def)
  from after_stop_run_schedule [OF a assms(3,4)]
  have 1: "after_stop (prov s) w (executed s) s'"
    and 2: "worker_rank (m_workerThread (prov s')) \<le> 3 - count_list sched WorkerStep"
    by (simp_all add: assms(5) t)
  from 1 2 show ?thesis
    by (auto simp: after_stop_def)
qed

text \<open>
  Claim C3, amended, at a concrete input: one item in flight, one queued, a fetch request
  arriving after the stop request, and \<open>Shutdown\<close> returning once the worker has.
\<close>

theorem stop_lets_only_in_flight_item_finish_witness:
  "m_initialized (prov in_flight_start) \<and>
   m_workerThread (prov in_flight_start) = Running item_b \<and>
   snd (run_work sample_host (prov in_flight_start) item_b) = None \<and>
   m_workQueue (prov in_flight_start) = [item_c] \<and>
   InitializeCall \<notin> set after_stop_schedule \<and>
   3 \<le> count_list after_stop_schedule WorkerStep \<and>
   m_workerThread (prov (run_schedule sample_host after_stop_schedule
     (apply_action sample_host StopRequest in_flight_start))) = Returned \<and>
   executed (run_schedule sample_host after_stop_schedule
     (apply_action sample_host StopRequest in_flight_start)) = executed in_flight_start @ [item_b] \<and>
   m_workQueue (prov (run_schedule sample_host after_stop_schedule
     (apply_action sample_host StopRequest in_flight_start))) = [item_c, item_c]"
proof -
  have a: "m_initialized (prov in_flight_start)"
    and b: "m_workerThread (prov in_flight_start) = Running item_b"
    and q: "m_workQueue (prov in_flight_start) = [item_c]"
    by (simp_all add: in_flight_start_def concrete_defs)
  have c: "snd (run_work sample_host (prov in_flight_start) item_b) = None"
    by (simp add: in_flight_start_def concrete_defs run_work_def Let_def)
  have n: "3 \<le> count_list after_stop_schedule WorkerStep"
    and m: "InitializeCall \<notin> set after_stop_schedule"
    by (simp_all add: after_stop_schedule_def fetch_c_def)
  have e: "m_workQueue (prov (run_schedule sample_host after_stop_schedule
     (apply_action sample_host StopRequest in_flight_start))) = [item_c, item_c]"
    by (simp add: after_stop_schedule_def in_flight_start_def concrete_defs step_defs sample_host_def)
  show ?thesis
    using a b c q n m e
      stop_lets_only_in_flight_item_finish [OF a b c m refl]
    by blast
qed

text \<open>
  Claim C4 as stated fails in two places. The work item does not capture a correlation
  key of the event: \<open>OnFetchData\<close> captures \<open>FetchData.RequiredFileOffset\<close> under the
  name \<open>transferKey\<close>, so for an event with correlation key 102 that asks for file offset
  2 the transfer carries the key 2. And the transfer length is the byte count cast to
  \<open>DWORD\<close>: for a fetch source that returns \<open>2^32\<close> bytes the transfer is issued with
  length 0.
\<close>

theorem fetch_transfer_key_and_length_differ:
  "CorrelationKey info_b = 102 \<and>
   FetchData_RequiredFileOffset params_b = 2 \<and>
   m_workQueue (fst (OnFetchData info_b params_b fetching_provider)) = [item_b] \<and>
   work_transferKey item_b = 2 \<and>
   run_work sample_host fetching_provider item_b =
     ([FetchDataCallback [0x62],
       CfExecute \<lparr>OpType = CF_OPERATION_TYPE_TRANSFER_DATA, ConnectionKey = 7, TransferKey = 2,
                  CompletionStatus = STATUS_SUCCESS, Buffer = [1, 2, 3], Length = 3,
                  Offset = 0\<rparr>], None) \<and>
   huge_fetch [0x62] = Inr huge_buffer \<and>
   length huge_buffer = 4294967296 \<and>
   run_work sample_host huge_provider item_b =
     ([FetchDataCallback [0x62],
       CfExecute \<lparr>OpType = CF_OPERATION_TYPE_TRANSFER_DATA, ConnectionKey = 7, TransferKey = 2,
                  CompletionStatus = STATUS_SUCCESS, Buffer = huge_buffer, Length = 0,
                  Offset = 0\<rparr>], None)"
  by (simp add: OnFetchData_def run_work_def info_b_def params_b_def item_b_def
      fetching_provider_def huge_provider_def connected_provider_def new_CloudFilesProvider_def
      sample_fetch_def huge_fetch_def huge_buffer_def sample_host_def FAILED_def Let_def)

text \<open>
  Claim C4, amended. Without a fetch source \<open>OnFetchData\<close> only writes its log line: the
  provider is unchanged, no work item exists and no application callback is invoked.
  With a fetch source it appends exactly one work item, which captures the event's path
  and a transfer key (read from the event's \<open>FetchData.RequiredFileOffset\<close>; the event's
  correlation key plays no part). Run by the worker on a provider whose fetch source
  returns bytes for the path, the item invokes the fetch source and then issues one
  transfer carrying those bytes, their number reduced modulo \<open>2^32\<close> as length (the
  number itself below \<open>2^32\<close>), the captured transfer key and status success; no
  exception leaves it and the worker goes on to re-take the lock.
\<close>

theorem OnFetchData_enqueues_transfer:
  assumes "item = \<lparr>work_relativePath = NormalizedPath info,
                   work_transferKey = FetchData_RequiredFileOffset params\<rparr>"
    and "op = \<lparr>OpType = CF_OPERATION_TYPE_TRANSFER_DATA, ConnectionKey = m_connectionKey q,
                 TransferKey = work_transferKey item, CompletionStatus = STATUS_SUCCESS,
                 Buffer = data, Length = of_nat (length data), Offset = 0\<rparr>"
  shows
    "(m_fetchDataCallback p = None \<longrightarrow>
        OnFetchData info params p =
          (p, [Wcout ''Fetch data requested for: '' (WStr (NormalizedPath info))])) \<and>
     (m_fetchDataCallback p \<noteq> None \<longrightarrow>
        OnFetchData info params p =
          (p\<lparr>m_workQueue := m_workQueue p @ [item]\<rparr>,
           [Wcout ''Fetch data requested for: '' (WStr (NormalizedPath info))])) \<and>
     (m_fetchDataCallback q = Some f \<and> f (NormalizedPath info) = Inr data \<longrightarrow>
        snd (run_work h q item) = None \<and>
        calls (fst (run_work h q item)) = [FetchDataCallback (NormalizedPath info), CfExecute op] \<and>
        unat (Length op) = length data mod 2 ^ 32 \<and>
        (length data < 2 ^ 32 \<longrightarrow> unat (Length op) = length data) \<and>
        (m_workerThread q = Running item \<longrightarrow>
           worker_step h q = (q\<lparr>m_workerThread := AtRelock\<rparr>, fst (run_work h q item))))"
  using assms
  by (auto simp: OnFetchData_def run_work_def worker_step_def Let_def calls_def unat_of_nat_32)

text \<open>
  Claim C4, amended, at concrete inputs: a provider without a fetch source, and one with
  a fetch source that returns three bytes for the requested path.
\<close>

theorem OnFetchData_enqueues_transfer_witness:
  "m_fetchDataCallback connected_provider = None \<and>
   OnFetchData info_b params_b connected_provider =
     (connected_provider, [Wcout ''Fetch data requested for: '' (WStr [0x62])]) \<and>
   m_fetchDataCallback fetching_provider \<noteq> None \<and>
   OnFetchData info_b params_b fetching_provider =
     (fetching_provider\<lparr>m_workQueue := [item_b]\<rparr>,
      [Wcout ''Fetch data requested for: '' (WStr [0x62])]) \<and>
   m_fetchDataCallback (fetching_provider\<lparr>m_workerThread := Running item_b\<rparr>) = Some sample_fetch \<and>
   sample_fetch [0x62] = Inr [1, 2, 3] \<and>
   length [1, 2, 3 :: byte] < 2 ^ 32 \<and>
   m_workerThread (fetching_provider\<lparr>m_workerThread := Running item_b\<rparr>) = Running item_b \<and>
   worker_step sample_host (fetching_provider\<lparr>m_workerThread := Running item_b\<rparr>) =
     (fetching_provider\<lparr>m_workerThread := AtRelock\<rparr>,
      [FetchDataCallback [0x62],
       CfExecute \<lparr>OpType = CF_OPERATION_TYPE_TRANSFER_DATA, ConnectionKey = 7, TransferKey = 2,
                  CompletionStatus = STATUS_SUCCESS, Buffer = [1, 2, 3], Length = 3,
                  Offset = 0\<rparr>]) \<and>
   snd (run_work sample_host (fetching_provider\<lparr>m_workerThread := Running item_b\<rparr>) item_b) = None"
proof -
  have i: "item_b = \<lparr>work_relativePath = NormalizedPath info_b,
       work_transferKey = FetchData_RequiredFileOffset params_b\<rparr>"
    by (simp add: item_b_def info_b_def params_b_def)
  have a: "m_fetchDataCallback connected_provider = None"
    by (simp add: connected_provider_def new_CloudFilesProvider_def)
  have b: "m_fetchDataCallback fetching_provider \<noteq> None"
    by (simp add: fetching_provider_def)
  have c: "m_fetchDataCallback (fetching_provider\<lparr>m_workerThread := Running item_b\<rparr>) = Some sample_fetch"
    by (simp add: fetching_provider_def)
  have d: "sample_fetch [0x62] = Inr [1, 2, 3]"
    by (simp add: sample_fetch_def)
  have l: "length [1, 2, 3 :: byte] < 2 ^ 32"
    by simp
  have e: "m_workerThread (fetching_provider\<lparr>m_workerThread := Running item_b\<rparr>) = Running item_b"
    by simp
  have f: "OnFetchData info_b params_b fetching_provider =
     (fetching_provider\<lparr>m_workQueue := [item_b]\<rparr>,
      [Wcout ''Fetch data requested for: '' (WStr [0x62])])"
    by (simp add: OnFetchData_def fetching_provider_def connected_provider_def
        new_CloudFilesProvider_def item_b_def info_b_def params_b_def Let_def)
  have g: "worker_step sample_host (fetching_provider\<lparr>m_workerThread := Running item_b\<rparr>) =
     (fetching_provider\<lparr>m_workerThread := AtRelock\<rparr>,
      [FetchDataCallback [0x62],
       CfExecute \<lparr>OpType = CF_OPERATION_TYPE_TRANSFER_DATA, ConnectionKey = 7, TransferKey = 2,
                  CompletionStatus = STATUS_SUCCESS, Buffer = [1, 2, 3], Length = 3,
                  Offset = 0\<rparr>])"
    by (simp add: worker_step_def run_work_def fetching_provider_def connected_provider_def
        new_CloudFilesProvider_def item_b_def sample_fetch_def sample_host_def FAILED_def Let_def)
  have n: "NormalizedPath info_b = [0x62]"
    by (simp add: info_b_def)
  show ?thesis
    using a b c d l e f g n
      OnFetchData_enqueues_transfer [OF i refl, where p = connected_provider
        and q = "fetching_provider\<lparr>m_workerThread := Running item_b\<rparr>" and f = sample_fetch
        and data = "[1, 2, 3]" and h = sample_host]
    by simp
qed

subsection \<open>Hydration, connection and placeholders\<close>

text \<open>
  Claim C5 as stated fails on the transfer length: the source casts the vector's size
  to \<open>DWORD\<close>. For a buffer of \<open>2^32\<close> bytes, with the file opened and a host
  transfer that succeeds, the transfer is issued with length 0.
\<close>

theorem HydrateFile_length_wraps:
  "length huge_buffer = 4294967296 \<and>
   ret_CreateFileW sample_host (GetFullPath connected_provider [0x61]) = 5 \<and>
   INVALID_HANDLE_VALUE = - 1 \<and>
   HydrateFile sample_host connected_provider [0x61] huge_buffer (Some sample_progress) =
     (S_OK,
      [Wcout ''Hydrating file: '' (WStr [0x61]), CreateFileW [0x44, 0x5C, 0x61],
       CfExecute \<lparr>OpType = CF_OPERATION_TYPE_TRANSFER_DATA, ConnectionKey = 7,
                  TransferKey = - 1, CompletionStatus = STATUS_SUCCESS, Buffer = huge_buffer,
                  Length = 0, Offset = 0\<rparr>,
       CloseHandle 5, ProgressCallback 1])"
  by (simp add: HydrateFile_def GetFileHandle_def GetFullPath_def huge_buffer_def
      sample_host_def connected_provider_def new_CloudFilesProvider_def
      INVALID_HANDLE_VALUE_def STATUS_SUCCESS_def FAILED_def S_OK_def)

text \<open>
  Claim C5, amended. When the target file opens, \<open>HydrateFile\<close> makes exactly these
  calls, in order: the open, one transfer at offset 0 with status success, the whole
  buffer and the buffer length reduced modulo \<open>2^32\<close> (the buffer length itself for a
  buffer shorter than \<open>2^32\<close> bytes), the close of the handle, and one progress call
  with 1.0 when a progress callback is supplied. It returns the host's transfer
  status: success when the transfer succeeds, the failure when it fails, the handle
  closed in both cases. When the file cannot be opened it makes no further call, holds
  no handle, and returns \<open>HRESULT_FROM_WIN32\<close> of the last-error code, a failure for
  every nonzero code.
\<close>

theorem HydrateFile_outcomes:
  assumes "op = \<lparr>OpType = CF_OPERATION_TYPE_TRANSFER_DATA, ConnectionKey = m_connectionKey p,
                 TransferKey = CF_TRANSFER_KEY_INVALID h, CompletionStatus = STATUS_SUCCESS,
                 Buffer = data, Length = of_nat (length data), Offset = 0\<rparr>"
    and "HydrateFile h p relPath data progressCallback = (hr, ev)"
  shows
    "(ret_CreateFileW h (GetFullPath p relPath) = INVALID_HANDLE_VALUE \<longrightarrow>
        hr = HRESULT_FROM_WIN32 (ret_GetLastError h) \<and>
        (ret_GetLastError h \<noteq> 0 \<longrightarrow> FAILED hr) \<and>
        calls ev = [CreateFileW (GetFullPath p relPath)]) \<and>
     (ret_CreateFileW h (GetFullPath p relPath) \<noteq> INVALID_HANDLE_VALUE \<longrightarrow>
        hr = ret_CfExecute h op \<and>
        calls ev =
          [CreateFileW (GetFullPath p relPath), CfExecute op,
           CloseHandle (ret_CreateFileW h (GetFullPath p relPath))] @
          (case progressCallback of None \<Rightarrow> [] | Some cb \<Rightarrow> [ProgressCallback 1]) \<and>
        Offset op = 0 \<and> CompletionStatus op = STATUS_SUCCESS \<and>
        unat (Length op) = length data mod 2 ^ 32 \<and>
        (length data < 2 ^ 32 \<longrightarrow> unat (Length op) = length data))"
  using assms
  by (auto simp: HydrateFile_def GetFileHandle_def Let_def calls_def FAILED_HRESULT_FROM_WIN32
      unat_of_nat_32 split: option.splits)

text \<open>
  Claim C5, amended, at two concrete inputs: a three-byte buffer with the file opened,
  and the same call on a host whose open fails with error 2.
\<close>

theorem HydrateFile_outcomes_witness:
  "HydrateFile sample_host connected_provider [0x61] [1, 2, 3] (Some sample_progress) =
     (0,
      [Wcout ''Hydrating file: '' (WStr [0x61]), CreateFileW [0x44, 0x5C, 0x61],
       CfExecute \<lparr>OpType = CF_OPERATION_TYPE_TRANSFER_DATA, ConnectionKey = 7,
                  TransferKey = - 1, CompletionStatus = STATUS_SUCCESS, Buffer = [1, 2, 3],
                  Length = 3, Offset = 0\<rparr>,
       CloseHandle 5, ProgressCallback 1]) \<and>
   ret_CreateFileW sample_host (GetFullPath connected_provider [0x61]) \<noteq> INVALID_HANDLE_VALUE \<and>
   length [1, 2, 3 :: byte] < 2 ^ 32 \<and>
   unat (Length \<lparr>OpType = CF_OPERATION_TYPE_TRANSFER_DATA,
                  ConnectionKey = m_connectionKey connected_provider,
                  TransferKey = CF_TRANSFER_KEY_INVALID sample_host,
                  CompletionStatus = STATUS_SUCCESS, Buffer = [1, 2, 3],
                  Length = of_nat (length [1, 2, 3 :: byte]), Offset = 0\<rparr>) =
     length [1, 2, 3 :: byte] \<and>
   HydrateFile failing_open_host connected_provider [0x61] [1, 2, 3] (Some sample_progress) =
     (0x80070002,
      [Wcout ''Hydrating file: '' (WStr [0x61]), CreateFileW [0x44, 0x5C, 0x61],
       Wcout ''Failed to get file handle: '' (Num 2)]) \<and>
   ret_CreateFileW failing_open_host (GetFullPath connected_provider [0x61]) = INVALID_HANDLE_VALUE \<and>
   ret_GetLastError failing_open_host \<noteq> 0 \<and>
   FAILED 0x80070002"
proof -
  have a: "HydrateFile sample_host connected_provider [0x61] [1, 2, 3] (Some sample_progress) =
     (0,
      [Wcout ''Hydrating file: '' (WStr [0x61]), CreateFileW [0x44, 0x5C, 0x61],
       CfExecute \<lparr>OpType = CF_OPERATION_TYPE_TRANSFER_DATA, ConnectionKey = 7,
                  TransferKey = - 1, CompletionStatus = STATUS_SUCCESS, Buffer = [1, 2, 3],
                  Length = 3, Offset = 0\<rparr>,
       CloseHandle 5, ProgressCallback 1])"
    by (simp add: HydrateFile_def GetFileHandle_def GetFullPath_def
        sample_host_def connected_provider_def new_CloudFilesProvider_def
        INVALID_HANDLE_VALUE_def FAILED_def)
  have b: "ret_CreateFileW sample_host (GetFullPath connected_provider [0x61]) \<noteq> INVALID_HANDLE_VALUE"
    by (simp add: sample_host_def INVALID_HANDLE_VALUE_def)
  have c: "length [1, 2, 3 :: byte] < 2 ^ 32"
    by simp
  have d: "HydrateFile failing_open_host connected_provider [0x61] [1, 2, 3] (Some sample_progress) =
     (0x80070002,
      [Wcout ''Hydrating file: '' (WStr [0x61]), CreateFileW [0x44, 0x5C, 0x61],
       Wcout ''Failed to get file handle: '' (Num 2)])"
    by (simp add: HydrateFile_def GetFileHandle_def GetFullPath_def failing_open_host_def
        sample_host_def connected_provider_def new_CloudFilesProvider_def
        INVALID_HANDLE_VALUE_def HRESULT_FROM_WIN32_def)
  have e: "ret_CreateFileW failing_open_host (GetFullPath connected_provider [0x61]) = INVALID_HANDLE_VALUE"
    by (simp add: failing_open_host_def INVALID_HANDLE_VALUE_def)
  have f: "ret_GetLastError failing_open_host \<noteq> 0"
    by (simp add: failing_open_host_def sample_host_def)
  show ?thesis
    using a b c d e f
      HydrateFile_outcomes [OF refl a]
      HydrateFile_outcomes [OF refl d]
    by blast
qed

text \<open>
  Claim C6. Disconnecting is idempotent. With the connection key at the invalid sentinel
  the disconnect step changes nothing and calls nothing; after any disconnect step the
  key is the sentinel, so a second step is a no-op; no \<open>CfDisconnectSyncRoot\<close> call is
  ever made with the sentinel. The same at the level of the two functions that contain
  the step: the second of two \<open>UnregisterSyncRoot\<close> calls makes no disconnect call, and
  after a \<open>Shutdown\<close> of an initialised provider has returned, a further disconnect
  step or \<open>Shutdown\<close> does nothing.
\<close>

theorem disconnect_idempotent:
  "(m_connectionKey p = CF_CONNECTION_KEY_INVALID h \<longrightarrow> disconnect h p = (p, [])) \<and>
   m_connectionKey (fst (disconnect h p)) = CF_CONNECTION_KEY_INVALID h \<and>
   disconnect h (fst (disconnect h p)) = (fst (disconnect h p), []) \<and>
   CfDisconnectSyncRoot (CF_CONNECTION_KEY_INVALID h) \<notin> set (snd (disconnect h p)) \<and>
   filter is_CfDisconnectSyncRoot
     (snd (snd (UnregisterSyncRoot h path2 (fst (snd (UnregisterSyncRoot h path1 p)))))) = [] \<and>
   (m_initialized p \<and> Shutdown h p = Some (p', ev) \<longrightarrow>
      m_connectionKey p' = CF_CONNECTION_KEY_INVALID h \<and>
      disconnect h p' = (p', []) \<and> Shutdown h p' = Some (p', []))"
proof -
  have "m_initialized p \<and> Shutdown h p = Some (p', ev) \<longrightarrow>
      m_connectionKey p' = CF_CONNECTION_KEY_INVALID h \<and>
      disconnect h p' = (p', []) \<and> Shutdown h p' = Some (p', [])"
    using Shutdown_disconnects [of h p p' ev] by (auto simp: disconnect_def Shutdown_def)
  moreover have "filter is_CfDisconnectSyncRoot
     (snd (snd (UnregisterSyncRoot h path2 (fst (snd (UnregisterSyncRoot h path1 p)))))) = []"
    by (simp add: UnregisterSyncRoot_def disconnect_def Let_def)
  ultimately show ?thesis
    by (simp add: disconnect_def)
qed

text \<open>
  Claim C6 at concrete inputs: a fresh provider, whose key is the sentinel, and an
  initialised provider connected under key 7 whose worker has already returned.
\<close>

theorem disconnect_idempotent_witness:
  "m_connectionKey (new_CloudFilesProvider sample_host) = CF_CONNECTION_KEY_INVALID sample_host \<and>
   disconnect sample_host (new_CloudFilesProvider sample_host) =
     (new_CloudFilesProvider sample_host, []) \<and>
   m_initialized (connected_provider\<lparr>m_initialized := True, m_workerThread := Returned\<rparr>) \<and>
   Shutdown sample_host (connected_provider\<lparr>m_initialized := True, m_workerThread := Returned\<rparr>) =
     Some (connected_provider\<lparr>m_workerThread := Returned, m_shouldStop := True,
             m_connectionKey := - 1\<rparr>,
           [Wcout ''Shutting down Cloud Files Provider...'' NoArg, CfDisconnectSyncRoot 7,
            Wcout ''Cloud Files Provider shut down'' NoArg]) \<and>
   disconnect sample_host (connected_provider\<lparr>m_workerThread := Returned, m_shouldStop := True,
             m_connectionKey := - 1\<rparr>) =
     (connected_provider\<lparr>m_workerThread := Returned, m_shouldStop := True,
             m_connectionKey := - 1\<rparr>, []) \<and>
   Shutdown sample_host (connected_provider\<lparr>m_workerThread := Returned, m_shouldStop := True,
             m_connectionKey := - 1\<rparr>) =
     Some (connected_provider\<lparr>m_workerThread := Returned, m_shouldStop := True,
             m_connectionKey := - 1\<rparr>, [])"
proof -
  have k: "m_connectionKey (new_CloudFilesProvider sample_host) = CF_CONNECTION_KEY_INVALID sample_host"
    by (simp add: new_CloudFilesProvider_def)
  have i: "m_initialized (connected_provider\<lparr>m_initialized := True, m_workerThread := Returned\<rparr>)"
    by simp
  have s: "Shutdown sample_host (connected_provider\<lparr>m_initialized := True, m_workerThread := Returned\<rparr>) =
     Some (connected_provider\<lparr>m_workerThread := Returned, m_shouldStop := True,
             m_connectionKey := - 1\<rparr>,
           [Wcout ''Shutting down Cloud Files Provider...'' NoArg, CfDisconnectSyncRoot 7,
            Wcout ''Cloud Files Provider shut down'' NoArg])"
    by (simp add: Shutdown_def Shutdown_request_def Shutdown_finish_def requestStop_def
        disconnect_def connected_provider_def new_CloudFilesProvider_def sample_host_def
        join_Returned)
  show ?thesis
    using k i s
      disconnect_idempotent [where p = "new_CloudFilesProvider sample_host" and h = sample_host]
      disconnect_idempotent [where p = "connected_provider\<lparr>m_initialized := True, m_workerThread := Returned\<rparr>"
        and h = sample_host and p' = "connected_provider\<lparr>m_workerThread := Returned, m_shouldStop := True,
             m_connectionKey := - 1\<rparr>"
        and ev = "[Wcout ''Shutting down Cloud Files Provider...'' NoArg, CfDisconnectSyncRoot 7,
            Wcout ''Cloud Files Provider shut down'' NoArg]"]
    by blast
qed

text \<open>
  Claim C7 as stated fails: \<open>UnregisterSyncRoot\<close> ends with \<open>return hr\<close>. When the host
  refuses the unregistration with \<open>E_ACCESSDENIED\<close> the caller receives that very
  status, a failure.
\<close>

theorem UnregisterSyncRoot_escalates_failure:
  "ret_CfUnregisterSyncRoot failing_unregister_host [0x44] = 0x80070005 \<and>
   fst (UnregisterSyncRoot failing_unregister_host [0x44] connected_provider) = 0x80070005 \<and>
   FAILED (fst (UnregisterSyncRoot failing_unregister_host [0x44] connected_provider)) \<and>
   snd (snd (UnregisterSyncRoot failing_unregister_host [0x44] connected_provider)) =
     [Wcout ''Unregistering sync root: '' (WStr [0x44]), CfDisconnectSyncRoot 7,
      CfUnregisterSyncRoot [0x44], Wcout ''Failed to unregister sync root: 0x'' (Hex 0x80070005)]"
  by (simp add: UnregisterSyncRoot_def disconnect_def failing_unregister_host_def sample_host_def
      connected_provider_def new_CloudFilesProvider_def FAILED_def)

text \<open>
  Claim C7, amended. \<open>UnregisterSyncRoot\<close> disconnects first when a connection is
  held, then asks the host to drop the registration; these are its only host calls, in
  this order. A failure of the unregistration is written to the log, and the host's
  status is returned to the caller unchanged, a failure included.
\<close>

theorem UnregisterSyncRoot_returns_host_status:
  assumes "UnregisterSyncRoot h syncRootPath p = (hr, p', ev)"
  shows "hr = ret_CfUnregisterSyncRoot h syncRootPath \<and>
         p' = p\<lparr>m_connectionKey := CF_CONNECTION_KEY_INVALID h\<rparr> \<and>
         calls ev =
           (if m_connectionKey p \<noteq> CF_CONNECTION_KEY_INVALID h
            then [CfDisconnectSyncRoot (m_connectionKey p)] else []) @
           [CfUnregisterSyncRoot syncRootPath] \<and>
         (FAILED hr \<longrightarrow> Wcout ''Failed to unregister sync root: 0x'' (Hex hr) \<in> set ev)"
  using assms
  by (auto simp: UnregisterSyncRoot_def disconnect_def calls_def Let_def split: if_splits)

text \<open>
  Claim C7, amended, at a concrete input: a connected provider and a host that refuses the
  unregistration.
\<close>

theorem UnregisterSyncRoot_returns_host_status_witness:
  "UnregisterSyncRoot failing_unregister_host [0x44] connected_provider =
     (0x80070005, connected_provider\<lparr>m_connectionKey := - 1\<rparr>,
      [Wcout ''Unregistering sync root: '' (WStr [0x44]), CfDisconnectSyncRoot 7,
       CfUnregisterSyncRoot [0x44], Wcout ''Failed to unregister sync root: 0x'' (Hex 0x80070005)]) \<and>
   FAILED 0x80070005 \<and>
   0x80070005 = ret_CfUnregisterSyncRoot failing_unregister_host [0x44] \<and>
   Wcout ''Failed to unregister sync root: 0x'' (Hex 0x80070005) \<in>
     set [Wcout ''Unregistering sync root: '' (WStr [0x44]), CfDisconnectSyncRoot 7,
       CfUnregisterSyncRoot [0x44], Wcout ''Failed to unregister sync root: 0x'' (Hex 0x80070005)]"
proof -
  have u: "UnregisterSyncRoot failing_unregister_host [0x44] connected_provider =
     (0x80070005, connected_provider\<lparr>m_connectionKey := - 1\<rparr>,
      [Wcout ''Unregistering sync root: '' (WStr [0x44]), CfDisconnectSyncRoot 7,
       CfUnregisterSyncRoot [0x44], Wcout ''Failed to unregister sync root: 0x'' (Hex 0x80070005)])"
    by (simp add: UnregisterSyncRoot_def disconnect_def failing_unregister_host_def sample_host_def
        connected_provider_def new_CloudFilesProvider_def FAILED_def)
  have f: "FAILED 0x80070005"
    by (simp add: FAILED_def)
  show ?thesis
    using u f UnregisterSyncRoot_returns_host_status [OF u] by blast
qed

text \<open>
  Claim C8. The placeholder identity depends on the relative path alone. Two
  derivations for the same path that both get their heap blocks, under the same string
  hash but with any basic info, any file size and any other host behaviour, yield the
  same identity bytes and the same identity length: the eight bytes of the path's hash
  and the length 8.
\<close>

theorem placeholder_identity_deterministic:
  assumes "std_hash h1 = std_hash h2"
    and "CreatePlaceholderInfo h1 relPath basicInfo1 fileSize1 = (S_OK, info1)"
    and "CreatePlaceholderInfo h2 relPath basicInfo2 fileSize2 = (S_OK, info2)"
  shows "FileIdentity info1 = FileIdentity info2 \<and>
         FileIdentityLength info1 = FileIdentityLength info2 \<and>
         FileIdentity info1 = Some (size_t_bytes (std_hash h1 relPath)) \<and>
         FileIdentityLength info1 = 8 \<and>
         length (size_t_bytes (std_hash h1 relPath)) = unat (FileIdentityLength info1)"
  using assms
  by (auto simp: CreatePlaceholderInfo_def Let_def S_OK_def E_OUTOFMEMORY_def size_t_bytes_def
      split: if_splits)

text \<open>
  Claim C8 at a concrete input: the same path on two hosts that differ in allocation
  behaviour, with different metadata and file sizes.
\<close>

theorem placeholder_identity_deterministic_witness:
  "std_hash sample_host = std_hash other_host \<and>
   CreatePlaceholderInfo sample_host [0x61, 0x62] sample_info 10 =
     (S_OK, \<lparr>RelativeFileName = Some [0x61, 0x62],
             FileIdentity = Some [2, 0, 0, 0, 0, 0, 0, 0], FileIdentityLength = 8,
             FsMetadata = DeadLocal\<rparr>) \<and>
   CreatePlaceholderInfo other_host [0x61, 0x62] (sample_info\<lparr>FileAttributes := 1\<rparr>) 99 =
     (S_OK, \<lparr>RelativeFileName = Some [0x61, 0x62],
             FileIdentity = Some [2, 0, 0, 0, 0, 0, 0, 0], FileIdentityLength = 8,
             FsMetadata = DeadLocal\<rparr>) \<and>
   FileIdentity \<lparr>RelativeFileName = Some [0x61, 0x62],
             FileIdentity = Some [2, 0, 0, 0, 0, 0, 0, 0], FileIdentityLength = 8,
             FsMetadata = DeadLocal\<rparr> =
   FileIdentity \<lparr>RelativeFileName = Some [0x61, 0x62],
             FileIdentity = Some [2, 0, 0, 0, 0, 0, 0, 0], FileIdentityLength = 8,
             FsMetadata = DeadLocal\<rparr>"
proof -
  have a: "std_hash sample_host = std_hash other_host"
    by (simp add: other_host_def)
  have b: "CreatePlaceholderInfo sample_host [0x61, 0x62] sample_info 10 =
     (S_OK, \<lparr>RelativeFileName = Some [0x61, 0x62],
             FileIdentity = Some [2, 0, 0, 0, 0, 0, 0, 0], FileIdentityLength = 8,
             FsMetadata = DeadLocal\<rparr>)"
    by (simp add: CreatePlaceholderInfo_def sample_host_def size_t_bytes_def)
  have c: "CreatePlaceholderInfo other_host [0x61, 0x62] (sample_info\<lparr>FileAttributes := 1\<rparr>) 99 =
     (S_OK, \<lparr>RelativeFileName = Some [0x61, 0x62],
             FileIdentity = Some [2, 0, 0, 0, 0, 0, 0, 0], FileIdentityLength = 8,
             FsMetadata = DeadLocal\<rparr>)"
    by (simp add: CreatePlaceholderInfo_def other_host_def sample_host_def size_t_bytes_def)
  show ?thesis
    using a b c placeholder_identity_deterministic [OF a b c] by blast
qed

text \<open>
  Claim C9. When the target file opens and a progress callback is supplied,
  \<open>HydrateFile\<close> invokes the callback exactly once, with 1.0, as its last action, and
  returns the status of the host transfer, whatever that status is: a failed transfer
  is still followed by the progress call, and the failure is what the caller gets.
\<close>

theorem HydrateFile_progress_after_transfer:
  assumes "ret_CreateFileW h (GetFullPath p relPath) \<noteq> INVALID_HANDLE_VALUE"
    and "HydrateFile h p relPath data (Some cb) = (hr, ev)"
  shows "filter is_ProgressCallback ev = [ProgressCallback 1] \<and>
         last ev = ProgressCallback 1 \<and>
         hr = ret_CfExecute h
                \<lparr>OpType = CF_OPERATION_TYPE_TRANSFER_DATA, ConnectionKey = m_connectionKey p,
                 TransferKey = CF_TRANSFER_KEY_INVALID h, CompletionStatus = STATUS_SUCCESS,
                 Buffer = data, Length = of_nat (length data), Offset = 0\<rparr>"
  using assms
  by (auto simp: HydrateFile_def GetFileHandle_def Let_def)

text \<open>
  Claim C9 at a concrete input: the file opens, the host transfer fails with \<open>E_FAIL\<close>.
\<close>

theorem HydrateFile_progress_after_transfer_witness:
  "ret_CreateFileW failing_transfer_host (GetFullPath connected_provider [0x61]) \<noteq> INVALID_HANDLE_VALUE \<and>
   HydrateFile failing_transfer_host connected_provider [0x61] [1, 2, 3] (Some sample_progress) =
     (0x80004005,
      [Wcout ''Hydrating file: '' (WStr [0x61]), CreateFileW [0x44, 0x5C, 0x61],
       CfExecute \<lparr>OpType = CF_OPERATION_TYPE_TRANSFER_DATA, ConnectionKey = 7,
                  TransferKey = - 1, CompletionStatus = 0, Buffer = [1, 2, 3], Length = 3,
                  Offset = 0\<rparr>,
       Wcout ''Failed to transfer data: 0x'' (Hex 0x80004005), CloseHandle 5,
       ProgressCallback 1]) \<and>
   FAILED 0x80004005 \<and>
   filter is_ProgressCallback
     [Wcout ''Hydrating file: '' (WStr [0x61]), CreateFileW [0x44, 0x5C, 0x61],
       CfExecute \<lparr>OpType = CF_OPERATION_TYPE_TRANSFER_DATA, ConnectionKey = 7,
                  TransferKey = - 1, CompletionStatus = 0, Buffer = [1, 2, 3], Length = 3,
                  Offset = 0\<rparr>,
       Wcout ''Failed to transfer data: 0x'' (Hex 0x80004005), CloseHandle 5,
       ProgressCallback 1] = [ProgressCallback 1]"
proof -
  have o: "ret_CreateFileW failing_transfer_host (GetFullPath connected_provider [0x61]) \<noteq> INVALID_HANDLE_VALUE"
    by (simp add: failing_transfer_host_def sample_host_def INVALID_HANDLE_VALUE_def)
  have r: "HydrateFile failing_transfer_host connected_provider [0x61] [1, 2, 3] (Some sample_progress) =
     (0x80004005,
      [Wcout ''Hydrating file: '' (WStr [0x61]), CreateFileW [0x44, 0x5C, 0x61],
       CfExecute \<lparr>OpType = CF_OPERATION_TYPE_TRANSFER_DATA, ConnectionKey = 7,
                  TransferKey = - 1, CompletionStatus = 0, Buffer = [1, 2, 3], Length = 3,
                  Offset = 0\<rparr>,
       Wcout ''Failed to transfer data: 0x'' (Hex 0x80004005), CloseHandle 5,
       ProgressCallback 1])"
    by (simp add: HydrateFile_def GetFileHandle_def GetFullPath_def failing_transfer_host_def
        sample_host_def connected_provider_def new_CloudFilesProvider_def
        INVALID_HANDLE_VALUE_def STATUS_SUCCESS_def FAILED_def)
  have f: "FAILED 0x80004005"
    by (simp add: FAILED_def)
  show ?thesis
    using o r f HydrateFile_progress_after_transfer [OF o r] by blast
qed

text \<open>
  Claim C10. Whatever the host answers and whatever \<open>RegisterSyncRoot\<close> returns, the
  provider afterwards holds the argument as its sync-root path; the directory creation
  is the first host call of every run, so the path is stored even when that first call
  fails. The stored path is what later operations use: \<open>GetFullPath\<close> prefixes it,
  \<open>HydrateFile\<close>, \<open>SetInSyncState\<close> and \<open>SetPinState\<close> open the file under it, and
  \<open>CreatePlaceholder\<close> passes it to the host.
\<close>

theorem RegisterSyncRoot_stores_path_first:
  assumes "RegisterSyncRoot h syncRootPath displayName p = (hr, p', ev)"
  shows "m_syncRootPath p' = syncRootPath \<and>
         hd (calls ev) = CreateDirectoryW syncRootPath \<and>
         GetFullPath p' relPath = syncRootPath @ [0x5C] @ relPath \<and>
         hd (calls (snd (HydrateFile h2 p' relPath data progressCallback))) =
           CreateFileW (syncRootPath @ [0x5C] @ relPath) \<and>
         hd (calls (snd (SetInSyncState h2 p' relPath state))) =
           CreateFileW (syncRootPath @ [0x5C] @ relPath) \<and>
         hd (calls (snd (SetPinState h2 p' relPath pinState))) =
           CreateFileW (syncRootPath @ [0x5C] @ relPath) \<and>
         (\<not> FAILED (fst (CreatePlaceholderInfo h2 relPath basicInfo fileSize)) \<longrightarrow>
            hd (calls (snd (CreatePlaceholder h2 p' relPath basicInfo fileSize))) =
              CfCreatePlaceholders syncRootPath
                (snd (CreatePlaceholderInfo h2 relPath basicInfo fileSize)))"
proof -
  have p: "m_syncRootPath p' = syncRootPath" and c: "hd (calls ev) = CreateDirectoryW syncRootPath"
    using assms
    by (auto simp: RegisterSyncRoot_def CreateSyncRegistration_def Let_def calls_def
        split: if_splits prod.splits)
  show ?thesis
    using p c
    by (auto simp: GetFullPath_def HydrateFile_def SetInSyncState_def SetPinState_def
        CreatePlaceholder_def GetFileHandle_def Let_def calls_def split: prod.splits)
qed

text \<open>
  Claim C10 at a concrete input: the directory cannot be created, \<open>RegisterSyncRoot\<close>
  returns \<open>E_ACCESSDENIED\<close>, and the path is stored all the same.
\<close>

theorem RegisterSyncRoot_stores_path_first_witness:
  "RegisterSyncRoot failing_directory_host [0x44] [0x4D] (new_CloudFilesProvider failing_directory_host) =
     (0x80070005, (new_CloudFilesProvider failing_directory_host)\<lparr>m_syncRootPath := [0x44]\<rparr>,
      [Wcout ''Registering sync root: '' (WStr [0x44]), CreateDirectoryW [0x44],
       Wcout ''Failed to create sync root directory: '' (Num 5)]) \<and>
   FAILED 0x80070005 \<and>
   \<not> FAILED (fst (CreatePlaceholderInfo sample_host [0x61] sample_info 10)) \<and>
   hd (calls (snd (CreatePlaceholder sample_host
        ((new_CloudFilesProvider failing_directory_host)\<lparr>m_syncRootPath := [0x44]\<rparr>)
        [0x61] sample_info 10))) =
     CfCreatePlaceholders [0x44] (snd (CreatePlaceholderInfo sample_host [0x61] sample_info 10)) \<and>
   GetFullPath ((new_CloudFilesProvider failing_directory_host)\<lparr>m_syncRootPath := [0x44]\<rparr>) [0x61] =
     [0x44] @ [0x5C] @ [0x61]"
proof -
  have a: "RegisterSyncRoot failing_directory_host [0x44] [0x4D] (new_CloudFilesProvider failing_directory_host) =
     (0x80070005, (new_CloudFilesProvider failing_directory_host)\<lparr>m_syncRootPath := [0x44]\<rparr>,
      [Wcout ''Registering sync root: '' (WStr [0x44]), CreateDirectoryW [0x44],
       Wcout ''Failed to create sync root directory: '' (Num 5)])"
    by (simp add: RegisterSyncRoot_def failing_directory_host_def sample_host_def
        ERROR_ALREADY_EXISTS_def HRESULT_FROM_WIN32_def)
  have b: "FAILED 0x80070005"
    by (simp add: FAILED_def)
  have c: "\<not> FAILED (fst (CreatePlaceholderInfo sample_host [0x61] sample_info 10))"
    by (simp add: CreatePlaceholderInfo_def sample_host_def FAILED_def S_OK_def)
  show ?thesis
    using a b c RegisterSyncRoot_stores_path_first [OF a, where ?h2.0 = sample_host
        and relPath = "[0x61]" and basicInfo = sample_info and fileSize = 10]
    by blast
qed

end
